theory Spec2Isabelle
  imports Complex_Main "HOL-Library.Multiset" "HOL-Library.Char_ord"
    "HOL-Library.List_Lexorder" "HOL-Library.Product_Lexorder"
begin

section \<open>Errors\<close>

text \<open>
  Python exceptions that abort a run are values of this type. \<open>KeyError k\<close> is what a
  failed dictionary or column lookup with key \<open>k\<close> raises; \<open>InvalidYear\<close> is the
  condition the specification names for a retrofit year before 1977;
  \<open>ConfigurationError k\<close> is the hard configuration error the specification names for
  a usage \<open>k\<close> that the use-condition catalogue does not have.
\<close>

datatype error = KeyError string | InvalidYear | ConfigurationError string

section \<open>Retrofit rule of \<open>GroundFloor.retrofit_wall\<close>\<close>

text \<open>
  \<open>groundfloor.py\<close>, \<open>retrofit_wall\<close>: after \<open>initialize_retrofit\<close> the local
  \<open>calc_u\<close> starts as \<open>None\<close> and is set by an \<open>if\<close>/\<open>elif\<close> chain on the year;
  no branch matches a year below 1977, so \<open>calc_u\<close> stays \<open>None\<close> there. The decimal
  literals are read as exact rationals.
\<close>

definition calc_u_of_year :: "int \<Rightarrow> real option" where
  "calc_u_of_year year_of_retrofit =
     (if 1977 \<le> year_of_retrofit \<and> year_of_retrofit \<le> 1981 then Some 0.8
      else if 1982 \<le> year_of_retrofit \<and> year_of_retrofit \<le> 1994 then Some 0.7
      else if 1995 \<le> year_of_retrofit \<and> year_of_retrofit \<le> 2001 then Some 0.5
      else if 2002 \<le> year_of_retrofit \<and> year_of_retrofit \<le> 2008 then Some 0.4
      else if 2009 \<le> year_of_retrofit \<and> year_of_retrofit \<le> 2013 then Some 0.3
      else if year_of_retrofit \<ge> 2014 then Some 0.3
      else None)"

text \<open>What \<open>retrofit_wall\<close> hands to the insulation step.\<close>

record insulation_request =
  ins_material :: "string option"
  ins_target_u :: real
  ins_year :: int

text \<open>
  Modelled from the spec: \<open>initialize_retrofit\<close> is a method of the parent class
  (\<open>OuterWall\<close> and above), which is not among the source files. The specification
  describes a retrofit year and an optional replacement material and no change to
  either before the band table is consulted, so both are passed through.
\<close>

definition initialize_retrofit :: "string option \<Rightarrow> int \<Rightarrow> string option \<times> int" where
  "initialize_retrofit material year_of_retrofit = (material, year_of_retrofit)"

text \<open>
  Modelled from the spec: \<open>set_insulation\<close> is a method of the parent class, not among
  the source files. The specification says the operation fails with an InvalidYear
  condition for years before 1977; in the source those are exactly the years for which
  \<open>set_insulation\<close> receives \<open>calc_u = None\<close>. With a target it goes on to size the
  added layer, which is recorded here as the request it works from.
\<close>

definition set_insulation :: "string option \<Rightarrow> real option \<Rightarrow> int \<Rightarrow> error + insulation_request" where
  "set_insulation material calc_u year_of_retrofit =
     (case calc_u of
        None \<Rightarrow> Inl InvalidYear
      | Some u \<Rightarrow> Inr \<lparr>ins_material = material, ins_target_u = u, ins_year = year_of_retrofit\<rparr>)"

definition retrofit_wall :: "int \<Rightarrow> string option \<Rightarrow> error + insulation_request" where
  "retrofit_wall year_of_retrofit material =
     (case initialize_retrofit material year_of_retrofit of
        (material', year') \<Rightarrow> set_insulation material' (calc_u_of_year year') year')"

section \<open>The input table of \<open>e9_building_data_import_from_excel.py\<close>\<close>

text \<open>
  A cell of the data frame is blank (\<open>np.nan\<close>), a number or a string. Columns the
  script does arithmetic on (areas, room height) hold a number or are blank:
  \<open>real option\<close>, \<open>None\<close> for \<open>np.nan\<close>, numbers read as exact reals. Label
  columns hold a string or are blank. The orientation and flag columns are the ones the
  script inspects for their type or value, so they keep the full cell type.
\<close>

datatype cell = NaN | Num real | Str string

record row =
  idx :: int
  RoomIdentifier :: "string option"
  BelongsToIdentifier :: "string option"
  UsageType :: "string option"
  NetArea :: "real option"
  HeatedRoomHeight :: "real option"
  WallAdjacentTo :: "string option"
  OuterWallOrientation :: cell
  OuterWallArea :: "real option"
  OuterWallConstruction :: "string option"
  WindowOrientation :: cell
  WindowArea :: "real option"
  WindowConstruction :: "string option"
  IsGroundFloor :: cell
  FloorConstruction :: "string option"
  IsRooftop :: cell
  CeilingConstruction :: "string option"
  InnerWallArea :: "real option"
  InnerWallConstruction :: "string option"

text \<open>
  The columns \<open>zoning_example\<close> adds to the frame. \<open>idx\<close> is the row's index label
  (printed in diagnostics); the table is the list of its rows in frame order, and
  \<open>data.loc[index, column]\<close> inside a loop over \<open>data.iterrows()\<close> addresses the row
  being visited (index labels are unique).
\<close>

record zrow =
  base :: row
  RoomCluster :: "string option"
  RoomClusterUsage :: "string option"
  UsageType_Teaser :: string
  Zone :: string

datatype diagnostic =
    NetAreaZeroWithUsage int
  | ClusterMainUsageCount string "int list"
  | OuterWallOrientationNotNumeric string cell "int list"
  | WindowOrientationNotNumeric string cell "int list"
  | IsGroundFloorNotZeroOrOne
  | NoFloorNorGroundFloor string cell "string option"
  | IsRooftopNotZeroOrOne
  | NoCeilingNorRooftop string cell "string option"
  | NoInnerWalls string "string option"

subsection \<open>Float arithmetic with \<open>np.nan\<close>\<close>

text \<open>\<open>a + b\<close> on floats: \<open>np.nan\<close> if either operand is.\<close>

definition nan_add :: "real option \<Rightarrow> real option \<Rightarrow> real option" where
  "nan_add a b = (case (a, b) of (Some x, Some y) \<Rightarrow> Some (x + y) | _ \<Rightarrow> None)"

definition nan_mult :: "real option \<Rightarrow> real option \<Rightarrow> real option" where
  "nan_mult a b = (case (a, b) of (Some x, Some y) \<Rightarrow> Some (x * y) | _ \<Rightarrow> None)"

text \<open>\<open>a == b\<close> on floats: \<open>np.nan\<close> equals nothing, itself included.\<close>

definition float_eq :: "real option \<Rightarrow> real option \<Rightarrow> bool" where
  "float_eq a b = (case (a, b) of (Some x, Some y) \<Rightarrow> x = y | _ \<Rightarrow> False)"

text \<open>\<open>np.nansum\<close>: blanks count as zero.\<close>

definition nansum :: "real option list \<Rightarrow> real" where
  "nansum xs = sum_list (map (\<lambda>x. case x of None \<Rightarrow> 0 | Some v \<Rightarrow> v) xs)"

section \<open>\<open>zoning_example\<close>\<close>

subsection \<open>Outer walls not adjacent to the ambient become inner wall\<close>

text \<open>
  The body of the first loop. \<open>data.loc[index, column]\<close> addresses every row of the
  frame that carries the label \<open>index\<close>: the three area cells are added row by row
  and written back row by row, and the six outer-wall and window cells are blanked on
  each of these rows. With distinct labels that is the visited row alone.
\<close>

definition reclassified :: "row \<Rightarrow> row" where
  "reclassified r =
     r\<lparr>InnerWallArea := nan_add (nan_add (OuterWallArea r) (WindowArea r)) (InnerWallArea r),
       WindowOrientation := NaN,
       WindowArea := None,
       WindowConstruction := None,
       OuterWallOrientation := NaN,
       OuterWallArea := None,
       OuterWallConstruction := None\<rparr>"

definition reclassify_at :: "int \<Rightarrow> row list \<Rightarrow> row list" where
  "reclassify_at index data = map (\<lambda>r. if idx r = index then reclassified r else r) data"

text \<open>
  The loop visits the rows of the frame as it was when the loop started
  (\<open>data.iterrows()\<close>) and tests the visited row's \<open>WallAdjacentTo\<close>.
\<close>

fun reclassify_loop :: "row list \<Rightarrow> row list \<Rightarrow> row list" where
  "reclassify_loop [] data = data"
| "reclassify_loop (line # lines) data =
     reclassify_loop lines
       (if WallAdjacentTo line \<noteq> None then reclassify_at (idx line) data else data)"

definition reclassify :: "row list \<Rightarrow> row list" where
  "reclassify data = reclassify_loop data data"

subsection \<open>Room clusters\<close>

definition room_cluster_of :: "row \<Rightarrow> string option" where
  "room_cluster_of line =
     (if BelongsToIdentifier line = None then RoomIdentifier line
      else BelongsToIdentifier line)"

definition add_room_cluster :: "row list \<Rightarrow> zrow list" where
  "add_room_cluster data =
     map (\<lambda>line. \<lparr>base = line, RoomCluster = room_cluster_of line,
                   RoomClusterUsage = None, UsageType_Teaser = [], Zone = []\<rparr>) data"

subsection \<open>Check for a usage stated on a row without net area\<close>

text \<open>
  The condition of the second loop as written:
  \<open>(row["NetArea"] == 0 or row["NetArea"] == np.nan) and not pd.isna(row["UsageType"])\<close>.
\<close>

definition net_area_condition :: "zrow \<Rightarrow> bool" where
  "net_area_condition r \<longleftrightarrow>
     (float_eq (NetArea (base r)) (Some 0) \<or> float_eq (NetArea (base r)) None)
     \<and> UsageType (base r) \<noteq> None"

fun net_area_warnings :: "zrow list \<Rightarrow> diagnostic list" where
  "net_area_warnings [] = []"
| "net_area_warnings (r # rs) =
     (if net_area_condition r then NetAreaZeroWithUsage (idx (base r)) # net_area_warnings rs
      else net_area_warnings rs)"

subsection \<open>\<open>groupby\<close>\<close>

text \<open>
  \<open>frame.groupby(columns)\<close>, iterated: rows with a blank key cell are dropped
  (\<open>key\<close> gives \<open>None\<close> for them), the groups come in ascending key order (\<open>rank\<close>
  embeds the key type into a linear order), each group keeps its rows in frame order
  and is never empty, so it is given as its first row (\<open>.iloc[0]\<close>) and the rest.
\<close>

definition group_keys :: "('r \<Rightarrow> 'k option) \<Rightarrow> ('k \<Rightarrow> 's::linorder) \<Rightarrow> 'r list \<Rightarrow> 'k list" where
  "group_keys key rank rows = sort_key rank (remdups (List.map_filter key rows))"

definition groupby ::
  "('r \<Rightarrow> 'k option) \<Rightarrow> ('k \<Rightarrow> 's::linorder) \<Rightarrow> 'r list \<Rightarrow> ('k \<times> 'r \<times> 'r list) list" where
  "groupby key rank rows =
     List.map_filter
       (\<lambda>k. case filter (\<lambda>r. key r = Some k) rows of
               [] \<Rightarrow> None
             | r # rs \<Rightarrow> Some (k, r, rs))
       (group_keys key rank rows)"

definition rows_of :: "'r \<times> 'r list \<Rightarrow> 'r list" where
  "rows_of g = fst g # snd g"

definition iloc0 :: "'r \<times> 'r list \<Rightarrow> 'r" where
  "iloc0 g = fst g"

subsection \<open>Main usage of each cluster\<close>

text \<open>
  The innermost loop: for every row \<open>i\<close> of the frame whose \<open>RoomCluster\<close> equals that
  of \<open>line\<close>, \<open>data.loc[i, "RoomClusterUsage"] = main_usage\<close> writes the usage into
  every row that carries the label \<open>i\<close>.
\<close>

definition same_cluster :: "zrow \<Rightarrow> zrow \<Rightarrow> bool" where
  "same_cluster r line \<longleftrightarrow> RoomCluster r \<noteq> None \<and> RoomCluster r = RoomCluster line"

definition set_cluster_usage :: "zrow \<Rightarrow> string \<Rightarrow> zrow list \<Rightarrow> zrow list" where
  "set_cluster_usage line main_usage data =
     map (\<lambda>r. if idx (base r) \<in> set (map (\<lambda>i. idx (base i)) (filter (\<lambda>i. same_cluster i line) data))
               then r\<lparr>RoomClusterUsage := Some main_usage\<rparr> else r) data"

text \<open>
  The loop over the lines of one cluster. The state is the frame, whether the column
  \<open>RoomClusterUsage\<close> exists yet (the first assignment through \<open>data.loc\<close> creates
  it), and the counter \<open>count\<close> (here \<open>cnt\<close>).
\<close>

fun cluster_lines :: "zrow list \<Rightarrow> zrow list \<times> bool \<times> nat \<Rightarrow> zrow list \<times> bool \<times> nat" where
  "cluster_lines [] st = st"
| "cluster_lines (line # lines) (data, col, cnt) =
     (case (BelongsToIdentifier (base line), UsageType (base line)) of
        (None, Some main_usage) \<Rightarrow>
          cluster_lines lines
            (set_cluster_usage line main_usage data,
             col \<or> list_ex (\<lambda>r. same_cluster r line) data,
             cnt + 1)
      | _ \<Rightarrow> cluster_lines lines (data, col, cnt))"

text \<open>
  The loop over the clusters. The warning prints the cluster's sub-frame; the
  diagnostic keeps the cluster key and the index labels of its rows.
\<close>

fun cluster_loop ::
  "(string \<times> zrow \<times> zrow list) list \<Rightarrow> zrow list \<times> bool \<times> diagnostic list
     \<Rightarrow> zrow list \<times> bool \<times> diagnostic list" where
  "cluster_loop [] st = st"
| "cluster_loop ((index, cluster) # groups) (data, col, warns) =
     (case cluster_lines (rows_of cluster) (data, col, 0) of
        (data', col', cnt) \<Rightarrow>
          cluster_loop groups
            (data', col',
             if cnt \<noteq> 1
             then warns @ [ClusterMainUsageCount index (map (\<lambda>r. idx (base r)) (rows_of cluster))]
             else warns))"

subsection \<open>Usage names of the use-condition catalogue\<close>

definition usage_to_json_usage :: "(string \<times> string) list" where
  "usage_to_json_usage =
     [(''IsolationRoom'', ''Bed room''),
      (''PatientRoom'', ''Bed room''),
      (''Aisle'', ''Corridors in the general care area''),
      (''Technical room'', ''Stock, technical equipment, archives''),
      (''Washing'', ''WC and sanitary rooms in non-residential buildings''),
      (''Stairway'', ''Corridors in the general care area''),
      (''WC'', ''WC and sanitary rooms in non-residential buildings''),
      (''Storage'', ''Stock, technical equipment, archives''),
      (''Lounge'', ''Meeting, Conference, seminar''),
      (''Office'', ''Meeting, Conference, seminar''),
      (''Treatment room'', ''Examination- or treatment room''),
      (''StorageChemical'', ''Stock, technical equipment, archives''),
      (''EquipmentServiceAndRinse'', ''WC and sanitary rooms in non-residential buildings'')]"

text \<open>
  \<open>get_list_of_present_entries\<close>: the distinct non-blank entries in order of first
  appearance.
\<close>

fun present_entries_loop :: "'a option list \<Rightarrow> 'a list \<Rightarrow> 'a list" where
  "present_entries_loop [] acc = acc"
| "present_entries_loop (x # xs) acc =
     (case x of
        None \<Rightarrow> present_entries_loop xs acc
      | Some v \<Rightarrow> present_entries_loop xs (if v \<in> set acc then acc else acc @ [v]))"

definition get_list_of_present_entries :: "'a option list \<Rightarrow> 'a list" where
  "get_list_of_present_entries xs = present_entries_loop xs []"

text \<open>
  The renaming loop: \<open>usage_to_json_usage[usage]\<close> raises \<open>KeyError\<close> for a label that
  is not a key of the dictionary; otherwise \<open>np.where\<close> writes the catalogue name into
  the rows with that usage.
\<close>

fun rename_loop :: "string list \<Rightarrow> zrow list \<Rightarrow> error + zrow list" where
  "rename_loop [] data = Inr data"
| "rename_loop (usage # usages) data =
     (case map_of usage_to_json_usage usage of
        None \<Rightarrow> Inl (KeyError usage)
      | Some json_usage \<Rightarrow>
          rename_loop usages
            (map (\<lambda>r. if RoomClusterUsage r = Some usage
                       then r\<lparr>UsageType_Teaser := json_usage\<rparr> else r) data))"

subsection \<open>The zoning function\<close>

text \<open>
  The result is the warnings emitted and either the exception that ended the run or
  the zoned frame. Reading the column \<open>RoomClusterUsage\<close> raises \<open>KeyError\<close> when no
  assignment has created it.
\<close>

definition main_usage_of_clusters :: "zrow list \<Rightarrow> zrow list \<times> bool \<times> diagnostic list" where
  "main_usage_of_clusters data = cluster_loop (groupby RoomCluster id data) (data, False, [])"

definition zoning_example :: "row list \<Rightarrow> diagnostic list \<times> (error + zrow list)" where
  "zoning_example data0 =
     (let data1 = reclassify data0;
          data2 = add_room_cluster data1;
          w1 = net_area_warnings data2
      in case main_usage_of_clusters data2 of
           (data3, col, w2) \<Rightarrow>
             if \<not> col then (w1 @ w2, Inl (KeyError ''RoomClusterUsage''))
             else
               (case rename_loop (get_list_of_present_entries (map RoomClusterUsage data3))
                       (map (\<lambda>r. r\<lparr>UsageType_Teaser := []\<rparr>) data3) of
                  Inl e \<Rightarrow> (w1 @ w2, Inl e)
                | Inr data4 \<Rightarrow> (w1 @ w2, Inr (map (\<lambda>r. r\<lparr>Zone := UsageType_Teaser r\<rparr>) data4))))"

section \<open>\<open>import_building_from_excel\<close>: zones and their elements\<close>

text \<open>
  What the script sets on each building element it creates: its class, area, tilt,
  orientation and the construction it loads. \<open>InnerWall\<close> gets neither tilt nor
  orientation from the script. The element's name is a concatenation of the class
  name, orientation and construction and is left out, as are the look-up of the
  construction (\<open>load_type_element\<close>, whose miss only warns) and the
  air-handling-unit table.
\<close>

datatype element_kind = OuterWall | Window | GroundFloor | Floor | Rooftop | Ceiling | InnerWall

record element =
  el_kind :: element_kind
  area :: real
  tilt :: "real option"
  orientation :: "cell option"
  construction :: "string option"

record thermal_zone =
  tz_name :: string
  tz_area :: real
  tz_volume :: real
  tz_elements :: "element list"

definition is_str :: "cell \<Rightarrow> bool" where
  "is_str c = (case c of Str _ \<Rightarrow> True | _ \<Rightarrow> False)"

text \<open>
  Keys of the two-column groupings: a pair of the first column's cell and the
  construction name, absent when either is blank. Numbers sort before strings.
\<close>

definition pair_key :: "cell \<Rightarrow> string option \<Rightarrow> (cell \<times> string) option" where
  "pair_key c s =
     (case c of NaN \<Rightarrow> None
      | _ \<Rightarrow> (case s of None \<Rightarrow> None | Some n \<Rightarrow> Some (c, n)))"

definition cell_rank :: "cell \<Rightarrow> nat \<times> real \<times> string" where
  "cell_rank c = (case c of NaN \<Rightarrow> (0, 0, []) | Num x \<Rightarrow> (1, x, []) | Str t \<Rightarrow> (2, 0, t))"

definition pair_rank :: "cell \<times> string \<Rightarrow> (nat \<times> real \<times> string) \<times> string" where
  "pair_rank k = (cell_rank (fst k), snd k)"

definition index_labels :: "zrow \<times> zrow list \<Rightarrow> int list" where
  "index_labels g = map (\<lambda>r. idx (base r)) (rows_of g)"

subsection \<open>Outer walls and windows\<close>

definition outer_wall_group :: "zrow \<times> zrow list \<Rightarrow> element list \<times> diagnostic list" where
  "outer_wall_group grp =
     (if \<not> is_str (OuterWallOrientation (base (iloc0 grp))) then
        (if nansum (map (\<lambda>r. OuterWallArea (base r)) (rows_of grp)) > 0 then
           ([\<lparr>el_kind = OuterWall,
               area = nansum (map (\<lambda>r. OuterWallArea (base r)) (rows_of grp)),
               tilt = Some 90,
               orientation = Some (OuterWallOrientation (base (iloc0 grp))),
               construction = OuterWallConstruction (base (iloc0 grp))\<rparr>], [])
         else ([], []))
      else ([], [OuterWallOrientationNotNumeric (Zone (iloc0 grp))
                   (OuterWallOrientation (base (iloc0 grp))) (index_labels grp)]))"

definition window_group :: "zrow \<times> zrow list \<Rightarrow> element list \<times> diagnostic list" where
  "window_group grp =
     (if \<not> is_str (WindowOrientation (base (iloc0 grp))) then
        (if nansum (map (\<lambda>r. WindowArea (base r)) (rows_of grp)) > 0 then
           ([\<lparr>el_kind = Window,
               area = nansum (map (\<lambda>r. WindowArea (base r)) (rows_of grp)),
               tilt = Some 90,
               orientation = Some (WindowOrientation (base (iloc0 grp))),
               construction = WindowConstruction (base (iloc0 grp))\<rparr>], [])
         else ([], []))
      else ([], [WindowOrientationNotNumeric (Zone (iloc0 grp))
                   (WindowOrientation (base (iloc0 grp))) (index_labels grp)]))"

subsection \<open>Floors and ceilings\<close>

definition floor_group :: "zrow \<times> zrow list \<Rightarrow> element list \<times> diagnostic list" where
  "floor_group grp =
     (if nansum (map (\<lambda>r. NetArea (base r)) (rows_of grp)) \<noteq> 0 then
        (if IsGroundFloor (base (iloc0 grp)) = Num 1 then
           ([\<lparr>el_kind = GroundFloor,
               area = nansum (map (\<lambda>r. NetArea (base r)) (rows_of grp)),
               tilt = Some 0,
               orientation = Some (Num (- 2)),
               construction = FloorConstruction (base (iloc0 grp))\<rparr>], [])
         else if IsGroundFloor (base (iloc0 grp)) = Num 0 then
           ([\<lparr>el_kind = Floor,
               area = nansum (map (\<lambda>r. NetArea (base r)) (rows_of grp)) / 2,
               tilt = Some 0,
               orientation = Some (Num (- 2)),
               construction = FloorConstruction (base (iloc0 grp))\<rparr>], [])
         else ([], [IsGroundFloorNotZeroOrOne]))
      else ([], [NoFloorNorGroundFloor (Zone (iloc0 grp))
                   (IsGroundFloor (base (iloc0 grp)))
                   (FloorConstruction (base (iloc0 grp)))]))"

definition ceiling_group :: "zrow \<times> zrow list \<Rightarrow> element list \<times> diagnostic list" where
  "ceiling_group grp =
     (if nansum (map (\<lambda>r. NetArea (base r)) (rows_of grp)) \<noteq> 0 then
        (if IsRooftop (base (iloc0 grp)) = Num 1 then
           ([\<lparr>el_kind = Rooftop,
               area = nansum (map (\<lambda>r. NetArea (base r)) (rows_of grp)),
               tilt = Some 0,
               orientation = Some (Num (- 1)),
               construction = CeilingConstruction (base (iloc0 grp))\<rparr>], [])
         else if IsRooftop (base (iloc0 grp)) = Num 0 then
           ([\<lparr>el_kind = Ceiling,
               area = nansum (map (\<lambda>r. NetArea (base r)) (rows_of grp)) / 2,
               tilt = Some 0,
               orientation = Some (Num (- 1)),
               construction = CeilingConstruction (base (iloc0 grp))\<rparr>], [])
         else ([], [IsRooftopNotZeroOrOne]))
      else ([], [NoCeilingNorRooftop (Zone (iloc0 grp))
                   (IsRooftop (base (iloc0 grp)))
                   (CeilingConstruction (base (iloc0 grp)))]))"

subsection \<open>Inner walls\<close>

definition inner_wall_group :: "zrow \<times> zrow list \<Rightarrow> element list \<times> diagnostic list" where
  "inner_wall_group grp =
     (if nansum (map (\<lambda>r. InnerWallArea (base r)) (rows_of grp)) \<noteq> 0 then
        ([\<lparr>el_kind = InnerWall,
            area = nansum (map (\<lambda>r. InnerWallArea (base r)) (rows_of grp)) / 2,
            tilt = None,
            orientation = None,
            construction = InnerWallConstruction (base (iloc0 grp))\<rparr>], [])
      else ([], [NoInnerWalls (Zone (iloc0 grp))
                   (InnerWallConstruction (base (iloc0 grp)))]))"

subsection \<open>One zone\<close>

text \<open>
  A loop \<open>for name, group in grouped\<close>: the elements and the warnings of all groups,
  each in group order.
\<close>

definition for_groups ::
  "(zrow \<times> zrow list \<Rightarrow> element list \<times> diagnostic list) \<Rightarrow> ('k \<times> zrow \<times> zrow list) list
     \<Rightarrow> element list \<times> diagnostic list" where
  "for_groups body grouped =
     (concat (map (\<lambda>g. fst (body (snd g))) grouped), concat (map (\<lambda>g. snd (body (snd g))) grouped))"

definition outer_wall_key :: "zrow \<Rightarrow> (cell \<times> string) option" where
  "outer_wall_key r = pair_key (OuterWallOrientation (base r)) (OuterWallConstruction (base r))"

definition window_key :: "zrow \<Rightarrow> (cell \<times> string) option" where
  "window_key r = pair_key (WindowOrientation (base r)) (WindowConstruction (base r))"

definition floor_key :: "zrow \<Rightarrow> (cell \<times> string) option" where
  "floor_key r = pair_key (IsGroundFloor (base r)) (FloorConstruction (base r))"

definition ceiling_key :: "zrow \<Rightarrow> (cell \<times> string) option" where
  "ceiling_key r = pair_key (IsRooftop (base r)) (CeilingConstruction (base r))"

definition inner_wall_key :: "zrow \<Rightarrow> string option" where
  "inner_wall_key r = InnerWallConstruction (base r)"

definition outer_walls :: "zrow list \<Rightarrow> element list \<times> diagnostic list" where
  "outer_walls zone = for_groups outer_wall_group (groupby outer_wall_key pair_rank zone)"

definition windows :: "zrow list \<Rightarrow> element list \<times> diagnostic list" where
  "windows zone = for_groups window_group (groupby window_key pair_rank zone)"

definition floors :: "zrow list \<Rightarrow> element list \<times> diagnostic list" where
  "floors zone = for_groups floor_group (groupby floor_key pair_rank zone)"

definition ceilings :: "zrow list \<Rightarrow> element list \<times> diagnostic list" where
  "ceilings zone = for_groups ceiling_group (groupby ceiling_key pair_rank zone)"

definition inner_walls :: "zrow list \<Rightarrow> element list \<times> diagnostic list" where
  "inner_walls zone = for_groups inner_wall_group (groupby inner_wall_key id zone)"

definition build_zone :: "string \<Rightarrow> zrow list \<Rightarrow> thermal_zone \<times> diagnostic list" where
  "build_zone name zone =
     (\<lparr>tz_name = name,
       tz_area = nansum (map (\<lambda>r. NetArea (base r)) zone),
       tz_volume =
         nansum (map (\<lambda>r. nan_mult (NetArea (base r)) (HeatedRoomHeight (base r))) zone),
       tz_elements =
         fst (outer_walls zone) @ fst (windows zone) @ fst (floors zone)
           @ fst (ceilings zone) @ fst (inner_walls zone)\<rparr>,
      snd (outer_walls zone) @ snd (windows zone) @ snd (floors zone)
        @ snd (ceilings zone) @ snd (inner_walls zone))"

subsection \<open>The import run\<close>

text \<open>
  Modelled from the spec: \<open>load_use_conditions\<close> is a method of \<open>UseConditions\<close>,
  which is not among the source files. The usage-condition catalogue is keyed by
  canonical usage category, and a lookup miss is a hard configuration error. The
  catalogue is given by its keys.
\<close>

definition load_use_conditions :: "string list \<Rightarrow> string \<Rightarrow> error + unit" where
  "load_use_conditions catalogue zone_usage =
     (if zone_usage \<in> set catalogue then Inr () else Inl (ConfigurationError zone_usage))"

text \<open>
  The frame is the one \<open>import_data\<close> returned. The zones are the groups of the
  column \<open>Zone\<close>, which holds strings only (the empty string where no usage was
  resolved), so no row is dropped here. For each zone the use conditions named by
  \<open>zone["UsageType_Teaser"].iloc[0]\<close> are loaded before its elements are built; an
  exception there ends the run.
\<close>

definition zone_groups :: "zrow list \<Rightarrow> (string \<times> zrow \<times> zrow list) list" where
  "zone_groups data = groupby (\<lambda>r. Some (Zone r)) id data"

fun zone_loop ::
  "string list \<Rightarrow> (string \<times> zrow \<times> zrow list) list \<Rightarrow> thermal_zone list \<times> diagnostic list
     \<Rightarrow> diagnostic list \<times> (error + thermal_zone list)" where
  "zone_loop catalogue [] (zs, w) = (w, Inr zs)"
| "zone_loop catalogue ((name, zone) # zones) (zs, w) =
     (case load_use_conditions catalogue (UsageType_Teaser (iloc0 zone)) of
        Inl e \<Rightarrow> (w, Inl e)
      | Inr u \<Rightarrow>
          zone_loop catalogue zones
            (zs @ [fst (build_zone name (rows_of zone))],
             w @ snd (build_zone name (rows_of zone))))"

definition import_building_from_excel ::
  "string list \<Rightarrow> row list \<Rightarrow> diagnostic list \<times> (error + thermal_zone list \<times> zrow list)" where
  "import_building_from_excel catalogue data0 =
     (case zoning_example data0 of
        (w, Inl e) \<Rightarrow> (w, Inl e)
      | (w, Inr data) \<Rightarrow>
          (case zone_loop catalogue (zone_groups data) ([], w) of
             (w', Inl e) \<Rightarrow> (w', Inl e)
           | (w', Inr zs) \<Rightarrow> (w', Inr (zs, data))))"

section \<open>\<open>import_data\<close>\<close>

text \<open>
  What \<open>pd.read_excel\<close> hands over, with the header row consumed and the reader's
  own recognition of missing values already applied (a cell it recognised is \<open>NaN\<close>
  here, any other text is a \<open>Str\<close>). For a list of sheet names it is one frame per
  sheet, each with the default index 0, 1, 2, \<dots>; for a single sheet name the sheet's
  first column is taken as the index (\<open>index_col=0\<close>). A frame row is its label and
  its cells.
\<close>

datatype excel_read =
    SheetList "cell list list list"
  | SingleSheet "(cell \<times> cell list) list"

record frame_row =
  row_label :: cell
  cells :: "cell list"

text \<open>
  \<open>str.strip()\<close>: whitespace characters (of code point below 256) are removed from
  both ends.
\<close>

definition py_whitespace :: "char \<Rightarrow> bool" where
  "py_whitespace c \<longleftrightarrow>
     c \<in> set [CHR 0x09, CHR 0x0A, CHR 0x0B, CHR 0x0C, CHR 0x0D,
               CHR 0x1C, CHR 0x1D, CHR 0x1E, CHR 0x1F, CHR 0x20, CHR 0x85, CHR 0xA0]"

definition strip :: "string \<Rightarrow> string" where
  "strip s = rev (dropWhile py_whitespace (rev (dropWhile py_whitespace s)))"

definition strip_cell :: "cell \<Rightarrow> cell" where
  "strip_cell x = (case x of Str s \<Rightarrow> Str (strip s) | _ \<Rightarrow> x)"

text \<open>The list given to \<open>data.replace\<close>.\<close>

definition na_strings :: "string list" where
  "na_strings = [[], ''N/a'', ''n/A'', ''NAN'', ''nan'', ''na'', ''Na'', ''nA'', ''NA'']"

definition replace_cell :: "cell \<Rightarrow> cell" where
  "replace_cell x = (case x of Str s \<Rightarrow> (if s \<in> set na_strings then NaN else x) | _ \<Rightarrow> x)"

definition clean_cell :: "cell \<Rightarrow> cell" where
  "clean_cell x = replace_cell (strip_cell x)"

text \<open>
  With a list of sheets the frames are appended, \<open>reset_index(drop=False)\<close> turns the
  per-sheet index into the column \<open>index\<close>, and 2 is added to it; that column is the
  \<open>row_label\<close> here (the frame's own index is then the fresh range 0, 1, 2, \<dots>,
  which is not represented). With a single sheet the \<open>row_label\<close> is the frame's index.
  \<open>applymap\<close> and \<open>replace\<close> act on the data cells, the column \<open>index\<close> among them,
  not on a frame's index.
\<close>

definition sheet_rows :: "cell list list \<Rightarrow> frame_row list" where
  "sheet_rows sheet =
     map (\<lambda>(k, r). \<lparr>row_label = Num (real k + 2), cells = r\<rparr>) (zip [0..<length sheet] sheet)"

definition import_data :: "excel_read \<Rightarrow> frame_row list" where
  "import_data rd =
     (case rd of
        SheetList sheets \<Rightarrow>
          map (\<lambda>r. \<lparr>row_label = clean_cell (row_label r), cells = map clean_cell (cells r)\<rparr>)
            (concat (map sheet_rows sheets))
      | SingleSheet rows \<Rightarrow>
          map (\<lambda>(i, r). \<lparr>row_label = i, cells = map clean_cell r\<rparr>) rows)"

section \<open>Notions used to state the properties\<close>

text \<open>
  The usages stated by the records of cluster \<open>k\<close> that have no back-reference and a
  usage, in frame order; the specification's "first match" and the last one.
\<close>

definition main_usages :: "string \<Rightarrow> zrow list \<Rightarrow> string list" where
  "main_usages k data =
     List.map_filter (\<lambda>r. UsageType (base r))
       (filter (\<lambda>r. RoomCluster r = Some k \<and> BelongsToIdentifier (base r) = None) data)"

definition first_main_usage :: "string \<Rightarrow> zrow list \<Rightarrow> string option" where
  "first_main_usage k data = (case main_usages k data of [] \<Rightarrow> None | u # _ \<Rightarrow> Some u)"

definition last_main_usage :: "string \<Rightarrow> zrow list \<Rightarrow> string option" where
  "last_main_usage k data = (case rev (main_usages k data) of [] \<Rightarrow> None | u # _ \<Rightarrow> Some u)"

definition cluster_labels :: "string \<Rightarrow> zrow list \<Rightarrow> int list" where
  "cluster_labels k data = map (\<lambda>r. idx (base r)) (filter (\<lambda>r. RoomCluster r = Some k) data)"

text \<open>
  What the first loop does to a row when every label occurs once: the row is rewritten
  if its own \<open>WallAdjacentTo\<close> is set.
\<close>

definition reclassify_row :: "row \<Rightarrow> row" where
  "reclassify_row line = (if WallAdjacentTo line \<noteq> None then reclassified line else line)"

text \<open>
  The usage a row holds after the cluster loops: the clusters are visited in key order,
  and a cluster with a usage overwrites every row that shares a label with one of its
  rows.
\<close>

definition resolved_usage :: "zrow list \<Rightarrow> zrow \<Rightarrow> string option" where
  "resolved_usage data r =
     foldl (\<lambda>u k. if idx (base r) \<in> set (cluster_labels k data) \<and> main_usages k data \<noteq> []
                   then last_main_usage k data else u)
       (RoomClusterUsage r) (group_keys RoomCluster id data)"

section \<open>Example tables\<close>

definition blank_row :: row where
  "blank_row =
     \<lparr>idx = 0, RoomIdentifier = None, BelongsToIdentifier = None, UsageType = None,
      NetArea = None, HeatedRoomHeight = None, WallAdjacentTo = None,
      OuterWallOrientation = NaN, OuterWallArea = None, OuterWallConstruction = None,
      WindowOrientation = NaN, WindowArea = None, WindowConstruction = None,
      IsGroundFloor = NaN, FloorConstruction = None, IsRooftop = NaN,
      CeilingConstruction = None, InnerWallArea = None, InnerWallConstruction = None\<rparr>"

text \<open>Two rows of one room, each stating a usage of its own.\<close>

definition two_usages_table :: "row list" where
  "two_usages_table =
     [blank_row\<lparr>idx := 2, RoomIdentifier := Some ''R1'', UsageType := Some ''Office'',
                NetArea := Some 10\<rparr>,
      blank_row\<lparr>idx := 3, RoomIdentifier := Some ''R1'', UsageType := Some ''WC'',
                NetArea := Some 5\<rparr>]"

text \<open>An office and a room whose usage is not a key of the dictionary.\<close>

definition unknown_usage_table :: "row list" where
  "unknown_usage_table =
     [blank_row\<lparr>idx := 2, RoomIdentifier := Some ''R1'', UsageType := Some ''Office'',
                NetArea := Some 10\<rparr>,
      blank_row\<lparr>idx := 3, RoomIdentifier := Some ''R2'', UsageType := Some ''Kitchen'',
                NetArea := Some 5\<rparr>]"

text \<open>A room with a usage but a blank net area.\<close>

definition blank_area_row :: row where
  "blank_area_row = blank_row\<lparr>idx := 2, RoomIdentifier := Some ''R1'', UsageType := Some ''Office''\<rparr>"

text \<open>
  An office whose outer wall (area 8) with a window (area 2) borders another room, with
  inner walls of area 3.
\<close>

definition adjacent_wall_table :: "row list" where
  "adjacent_wall_table =
     [blank_row\<lparr>idx := 2, RoomIdentifier := Some ''R1'', UsageType := Some ''Office'',
                NetArea := Some 10, WallAdjacentTo := Some ''R2'',
                OuterWallOrientation := Num 90, OuterWallArea := Some 8,
                OuterWallConstruction := Some ''Brick'',
                WindowOrientation := Num 90, WindowArea := Some 2,
                WindowConstruction := Some ''Glass'',
                InnerWallArea := Some 3, InnerWallConstruction := Some ''Light''\<rparr>]"

text \<open>An office (room R1) and a room R2 whose only row states no usage.\<close>

definition no_usage_table :: "row list" where
  "no_usage_table =
     [blank_row\<lparr>idx := 2, RoomIdentifier := Some ''R1'', UsageType := Some ''Office'',
                NetArea := Some 10\<rparr>,
      blank_row\<lparr>idx := 3, RoomIdentifier := Some ''R2'', NetArea := Some 5\<rparr>]"

text \<open>
  The rows of a zone with grouping key \<open>k\<close>, and the \<open>np.nansum\<close> of one of their
  columns.
\<close>

definition group_rows :: "(zrow \<Rightarrow> 'k option) \<Rightarrow> 'k \<Rightarrow> zrow list \<Rightarrow> zrow list" where
  "group_rows key k zone = filter (\<lambda>r. key r = Some k) zone"

definition group_sum :: "(row \<Rightarrow> real option) \<Rightarrow> (zrow \<Rightarrow> 'k option) \<Rightarrow> 'k \<Rightarrow> zrow list \<Rightarrow> real" where
  "group_sum col key k zone = nansum (map (\<lambda>r. col (base r)) (group_rows key k zone))"



text \<open>
  Two rows of one zone: inner walls of 4 and 2 (one construction), a floor over
  another storey (flag 0) and a ground-floor flag of 2, a rooftop and a ceiling, an
  outer wall facing 90 and one with a textual orientation, a window.
\<close>

definition sample_zone :: "zrow list" where
  "sample_zone =
     [\<lparr>base = blank_row\<lparr>idx := 2, RoomIdentifier := Some ''R1'', UsageType := Some ''Office'',
                NetArea := Some 10, HeatedRoomHeight := Some 3,
                OuterWallOrientation := Num 90, OuterWallArea := Some 12,
                OuterWallConstruction := Some ''Brick'',
                WindowOrientation := Num 90, WindowArea := Some 0,
                WindowConstruction := Some ''Glass'',
                IsGroundFloor := Num 0, FloorConstruction := Some ''Slab'',
                IsRooftop := Num 1, CeilingConstruction := Some ''Roof'',
                InnerWallArea := Some 4, InnerWallConstruction := Some ''Light''\<rparr>,
       RoomCluster = Some ''R1'', RoomClusterUsage = Some ''Office'',
       UsageType_Teaser = ''Meeting, Conference, seminar'',
       Zone = ''Meeting, Conference, seminar''\<rparr>,
      \<lparr>base = blank_row\<lparr>idx := 3, RoomIdentifier := Some ''R2'', UsageType := Some ''Lounge'',
                NetArea := Some 6, HeatedRoomHeight := Some 3,
                OuterWallOrientation := Str ''N'', OuterWallArea := Some 5,
                OuterWallConstruction := Some ''Brick'',
                IsGroundFloor := Num 2, FloorConstruction := Some ''Slab'',
                IsRooftop := Num 0, CeilingConstruction := Some ''Deck'',
                InnerWallArea := Some 2, InnerWallConstruction := Some ''Light''\<rparr>,
       RoomCluster = Some ''R2'', RoomClusterUsage = Some ''Lounge'',
       UsageType_Teaser = ''Meeting, Conference, seminar'',
       Zone = ''Meeting, Conference, seminar''\<rparr>]"

text \<open>A zone of one row with a blank net area, flagged as ground floor and as ceiling.\<close>

definition no_area_zone :: "zrow list" where
  "no_area_zone =
     [\<lparr>base = blank_row\<lparr>idx := 2, RoomIdentifier := Some ''R1'', UsageType := Some ''Office'',
                IsGroundFloor := Num 1, FloorConstruction := Some ''Slab'',
                IsRooftop := Num 0, CeilingConstruction := Some ''Deck''\<rparr>,
       RoomCluster = Some ''R1'', RoomClusterUsage = Some ''Office'',
       UsageType_Teaser = ''Meeting, Conference, seminar'',
       Zone = ''Meeting, Conference, seminar''\<rparr>]"



text \<open>The keys of a use-condition catalogue: the values of the usage dictionary.\<close>

definition sample_catalogue :: "string list" where
  "sample_catalogue =
     [''Bed room'', ''Corridors in the general care area'',
      ''Stock, technical equipment, archives'',
      ''WC and sanitary rooms in non-residential buildings'',
      ''Meeting, Conference, seminar'', ''Examination- or treatment room'']"

text \<open>A single room whose row states no usage.\<close>

definition only_no_usage_table :: "row list" where
  "only_no_usage_table = [blank_row\<lparr>idx := 2, RoomIdentifier := Some ''R1'', NetArea := Some 5\<rparr>]"

text \<open>An office and a sanitary room on two rows that carry the same index label.\<close>

definition shared_label_table :: "row list" where
  "shared_label_table =
     [blank_row\<lparr>idx := 2, RoomIdentifier := Some ''R1'', UsageType := Some ''Office'',
                NetArea := Some 10\<rparr>,
      blank_row\<lparr>idx := 2, RoomIdentifier := Some ''R2'', UsageType := Some ''WC'',
                NetArea := Some 5\<rparr>]"

text \<open>
  An office whose outer wall (area 8) borders another room and has no window (the
  window cells are blank), with inner walls of area 3.
\<close>

definition blank_window_table :: "row list" where
  "blank_window_table =
     [blank_row\<lparr>idx := 2, RoomIdentifier := Some ''R1'', UsageType := Some ''Office'',
                NetArea := Some 10, WallAdjacentTo := Some ''R2'',
                OuterWallOrientation := Num 90, OuterWallArea := Some 8,
                OuterWallConstruction := Some ''Brick'',
                InnerWallArea := Some 3, InnerWallConstruction := Some ''Light''\<rparr>]"

text \<open>
  Five rows of one zone: three brick walls facing 90 (areas 12, 5 and a blank one) and
  one with a textual orientation; two windows facing 90 (areas 2 and 3), one facing
  180 of area 0 and two facing 270 with areas 1 and - 1.
\<close>

definition facade_zone :: "zrow list" where
  "facade_zone =
     map (\<lambda>b. \<lparr>base = b, RoomCluster = Some ''R1'', RoomClusterUsage = Some ''Office'',
                UsageType_Teaser = ''Meeting, Conference, seminar'',
                Zone = ''Meeting, Conference, seminar''\<rparr>)
       [blank_row\<lparr>idx := 2, OuterWallOrientation := Num 90, OuterWallArea := Some 12,
                  OuterWallConstruction := Some ''Brick'',
                  WindowOrientation := Num 90, WindowArea := Some 2,
                  WindowConstruction := Some ''Glass''\<rparr>,
        blank_row\<lparr>idx := 3, OuterWallOrientation := Num 90, OuterWallArea := Some 5,
                  OuterWallConstruction := Some ''Brick'',
                  WindowOrientation := Num 90, WindowArea := Some 3,
                  WindowConstruction := Some ''Glass''\<rparr>,
        blank_row\<lparr>idx := 4, OuterWallOrientation := Num 90,
                  OuterWallConstruction := Some ''Brick'',
                  WindowOrientation := Num 180, WindowArea := Some 0,
                  WindowConstruction := Some ''Glass''\<rparr>,
        blank_row\<lparr>idx := 5, OuterWallOrientation := Str ''N'', OuterWallArea := Some 4,
                  OuterWallConstruction := Some ''Brick'',
                  WindowOrientation := Num 270, WindowArea := Some 1,
                  WindowConstruction := Some ''Glass''\<rparr>,
        blank_row\<lparr>idx := 6, WindowOrientation := Num 270, WindowArea := Some (- 1),
                  WindowConstruction := Some ''Glass''\<rparr>]"


section \<open>Theorems\<close>

subsection \<open>Unfolding sets for evaluating the examples\<close>

lemma set_cluster_usage_eval:
  "set_cluster_usage line main_usage data =
     map (\<lambda>r. if list_ex (\<lambda>i. same_cluster i line \<and> idx (base i) = idx (base r)) data
               then r\<lparr>RoomClusterUsage := Some main_usage\<rparr> else r) data"
  unfolding set_cluster_usage_def
  by (rule map_cong[OF refl]) (force simp: list_ex_iff image_iff)

lemmas zoning_eval = zoning_example_def main_usage_of_clusters_def reclassify_def
  reclassify_at_def reclassified_def nan_add_def add_room_cluster_def
  room_cluster_of_def net_area_condition_def float_eq_def groupby_def group_keys_def
  List.map_filter_def rows_of_def same_cluster_def set_cluster_usage_eval
  get_list_of_present_entries_def usage_to_json_usage_def blank_row_def

lemmas import_eval = import_building_from_excel_def load_use_conditions_def
  sample_catalogue_def zone_groups_def build_zone_def
  outer_walls_def windows_def floors_def ceilings_def inner_walls_def for_groups_def
  outer_wall_key_def window_key_def floor_key_def ceiling_key_def inner_wall_key_def
  pair_key_def pair_rank_def cell_rank_def nansum_def nan_mult_def iloc0_def index_labels_def
  outer_wall_group_def window_group_def floor_group_def ceiling_group_def
  inner_wall_group_def is_str_def

text \<open>
  C6. The retrofit operation maps the retrofit year to the target U-value by the fixed
  bands 1977 to 1981: 0.8, 1982 to 1994: 0.7, 1995 to 2001: 0.5, 2002 to 2008: 0.4,
  2009 to 2013: 0.3, from 2014 on: 0.3, and for every year before 1977 it fails with
  InvalidYear instead of producing a target.
\<close>

theorem C6_retrofit_year_bands:
  "retrofit_wall y m =
     (if y < 1977 then Inl InvalidYear
      else Inr \<lparr>ins_material = m,
                ins_target_u =
                  (if y \<le> 1981 then 0.8 else if y \<le> 1994 then 0.7
                   else if y \<le> 2001 then 0.5 else if y \<le> 2008 then 0.4
                   else if y \<le> 2013 then 0.3 else 0.3),
                ins_year = y\<rparr>)"
  by (simp add: retrofit_wall_def initialize_retrofit_def set_insulation_def calc_u_of_year_def)

theorem C6_retrofit_year_bands_witness:
  "retrofit_wall 1976 None = Inl InvalidYear
   \<and> retrofit_wall 1977 None = Inr \<lparr>ins_material = None, ins_target_u = 0.8, ins_year = 1977\<rparr>
   \<and> retrofit_wall 2020 (Some ''EPS'') = Inr \<lparr>ins_material = Some ''EPS'', ins_target_u = 0.3, ins_year = 2020\<rparr>"
  using C6_retrofit_year_bands [of 1976 None] C6_retrofit_year_bands [of 1977 None]
    C6_retrofit_year_bands [of 2020 "Some ''EPS''"]
  by simp

subsection \<open>What the reclassification loop computes\<close>

lemma reclassified_keeps:
  "idx (reclassified r) = idx r"
  "RoomIdentifier (reclassified r) = RoomIdentifier r"
  "BelongsToIdentifier (reclassified r) = BelongsToIdentifier r"
  "UsageType (reclassified r) = UsageType r"
  "WallAdjacentTo (reclassified r) = WallAdjacentTo r"
  by (simp_all add: reclassified_def)

lemma reclassified_funpow_idx: "idx ((reclassified ^^ n) r) = idx r"
  by (induction n) (simp_all add: reclassified_keeps)

text \<open>
  Every row is rewritten once for each visited row that carries its label and has
  \<open>WallAdjacentTo\<close> set.
\<close>

lemma reclassify_loop_spec:
  "reclassify_loop lines data =
     map (\<lambda>r. (reclassified ^^
                  length (filter (\<lambda>l. idx l = idx r \<and> WallAdjacentTo l \<noteq> None) lines)) r) data"
proof (induction lines arbitrary: data)
  case Nil
  then show ?case by simp
next
  case (Cons l ls)
  let ?n = "\<lambda>r. length (filter (\<lambda>l. idx l = idx r \<and> WallAdjacentTo l \<noteq> None) ls)"
  let ?d = "if WallAdjacentTo l \<noteq> None then reclassify_at (idx l) data else data"
  have d: "?d = map (\<lambda>r. if idx l = idx r \<and> WallAdjacentTo l \<noteq> None then reclassified r else r) data"
  proof (cases "WallAdjacentTo l")
    case None
    then show ?thesis by simp
  next
    case (Some a)
    then show ?thesis by (simp add: reclassify_at_def eq_commute)
  qed
  have "reclassify_loop (l # ls) data = map (\<lambda>r. (reclassified ^^ ?n r) r) ?d"
    using Cons.IH[of ?d] by simp
  also have "\<dots> = map (\<lambda>r. (reclassified ^^
                  length (filter (\<lambda>l. idx l = idx r \<and> WallAdjacentTo l \<noteq> None) (l # ls))) r) data"
    unfolding d map_map
    by (rule map_cong[OF refl]) (auto simp: reclassified_keeps funpow_swap1)
  finally show ?case .
qed

lemma reclassify_spec:
  "reclassify data =
     map (\<lambda>r. (reclassified ^^
                  length (filter (\<lambda>l. idx l = idx r \<and> WallAdjacentTo l \<noteq> None) data)) r) data"
  by (simp add: reclassify_def reclassify_loop_spec)

lemma distinct_label_count:
  assumes "distinct (map idx data)" and "r \<in> set data"
  shows "filter (\<lambda>l. idx l = idx r \<and> P l) data = (if P r then [r] else [])"
  using assms
proof (induction data)
  case Nil
  then show ?case by simp
next
  case (Cons a data)
  show ?case
  proof (cases "a = r")
    case True
    with Cons.prems(1) have "idx r \<notin> idx ` set data" by simp
    then have "\<forall>x\<in>set data. \<not> (idx x = idx r \<and> P x)"
      by (metis imageI)
    then have "filter (\<lambda>l. idx l = idx r \<and> P l) data = []"
      by (rule filter_empty_conv[THEN iffD2])
    with True show ?thesis by simp
  next
    case False
    with Cons.prems have r: "r \<in> set data" and d: "distinct (map idx data)" by auto
    from Cons.prems(1) r have "idx a \<noteq> idx r" by (auto simp: image_iff)
    with Cons.IH[OF d r] show ?thesis by simp
  qed
qed

lemma reclassify_map:
  assumes "distinct (map idx data)"
  shows "reclassify data = map reclassify_row data"
  unfolding reclassify_spec
  by (rule map_cong[OF refl])
     (simp add: distinct_label_count[OF assms] reclassify_row_def)

lemma reclassify_column:
  assumes "\<And>r. f (reclassified r) = f r"
  shows "map f (reclassify data) = map f data"
proof -
  have "f ((reclassified ^^ n) r) = f r" for n r
    by (induction n) (simp_all add: assms)
  then show ?thesis
    by (simp add: reclassify_spec comp_def)
qed


subsection \<open>The later steps leave the input columns alone\<close>

lemma set_cluster_usage_base: "map base (set_cluster_usage line u data) = map base data"
  by (simp add: set_cluster_usage_def)

lemma set_cluster_usage_cluster:
  "map RoomCluster (set_cluster_usage line u data) = map RoomCluster data"
  by (simp add: set_cluster_usage_def)

lemma cluster_lines_base:
  "cluster_lines ls st = st' \<Longrightarrow> map base (fst st') = map base (fst st)"
proof (induction ls st arbitrary: st' rule: cluster_lines.induct)
  case (1 st)
  then show ?case by simp
next
  case (2 line lines data col cnt)
  then show ?case
    by (auto split: option.splits simp: set_cluster_usage_base)
qed

lemma cluster_loop_base:
  "cluster_loop gs st = st' \<Longrightarrow> map base (fst st') = map base (fst st)"
proof (induction gs st arbitrary: st' rule: cluster_loop.induct)
  case (1 st)
  then show ?case by simp
next
  case (2 index cluster groups data col warns)
  obtain d' c' n' where cl: "cluster_lines (rows_of cluster) (data, col, 0) = (d', c', n')"
    by (cases "cluster_lines (rows_of cluster) (data, col, 0)") auto
  from cluster_lines_base[OF cl] have "map base d' = map base data" by simp
  with 2 cl show ?case by (auto split: if_splits)
qed

lemma rename_loop_base:
  "rename_loop us data = Inr out \<Longrightarrow> map base out = map base data"
proof (induction us data arbitrary: out rule: rename_loop.induct)
  case (1 data)
  then show ?case by auto
next
  case (2 usage usages data)
  then show ?case by (fastforce split: option.splits simp: comp_def)
qed

lemma add_room_cluster_base: "map base (add_room_cluster data) = data"
  by (simp add: add_room_cluster_def comp_def)

lemma zoning_example_base:
  assumes "snd (zoning_example data) = Inr out"
  shows "map base out = reclassify data"
proof -
  obtain d3 col w2 where
    cl: "main_usage_of_clusters (add_room_cluster (reclassify data)) = (d3, col, w2)"
    by (metis prod_cases3)
  then have "map base d3 = map base (add_room_cluster (reclassify data))"
    unfolding main_usage_of_clusters_def using cluster_loop_base by fastforce
  then have b3: "map base d3 = reclassify data"
    by (simp add: add_room_cluster_base)
  from assms cl obtain d4 where
    r: "rename_loop (get_list_of_present_entries (map RoomClusterUsage d3))
          (map (\<lambda>r. r\<lparr>UsageType_Teaser := []\<rparr>) d3) = Inr d4"
    and out: "out = map (\<lambda>r. r\<lparr>Zone := UsageType_Teaser r\<rparr>) d4"
    by (auto simp: zoning_example_def Let_def split: if_splits sum.splits)
  from rename_loop_base[OF r] have "map base d4 = map base d3" by (simp add: comp_def)
  with b3 out show ?thesis by (simp add: comp_def)
qed

text \<open>
  C3. For every record whose WallAdjacentTo field is not blank, the reclassification
  step replaces its inner-wall area by the sum of its outer-wall area, window area and
  inner-wall area and blanks the six outer-wall and window fields. With the three
  areas 8, 2 and 3 the code does so and gives 13. It adds with the float \<open>+\<close>,
  though: for a wall without window (blank window area, outer wall 8, inner walls 3)
  the inner-wall area becomes blank, the outer-wall fields are blanked all the same,
  and the zone ends with no element at all, so the wall's area is lost.
\<close>

theorem C3_blank_window_area_lost:
  "map WallAdjacentTo blank_window_table = [Some ''R2'']
   \<and> map OuterWallArea blank_window_table = [Some 8]
   \<and> map WindowArea blank_window_table = [None]
   \<and> map InnerWallArea blank_window_table = [Some 3]
   \<and> map InnerWallArea (reclassify blank_window_table) = [None]
   \<and> map OuterWallArea (reclassify blank_window_table) = [None]
   \<and> fst (import_building_from_excel sample_catalogue blank_window_table)
       = [NoInnerWalls ''Meeting, Conference, seminar'' (Some ''Light'')]
   \<and> map_sum id (map tz_elements \<circ> fst)
         (snd (import_building_from_excel sample_catalogue blank_window_table)) = Inr [[]]
   \<and> map InnerWallArea (reclassify adjacent_wall_table) = [Some 13]
   \<and> map OuterWallArea (reclassify adjacent_wall_table) = [None]
   \<and> map WindowArea (reclassify adjacent_wall_table) = [None]"
  by (simp add: zoning_eval import_eval blank_window_table_def adjacent_wall_table_def)

subsection \<open>The net-area check\<close>

lemma float_eq_nan: "\<not> float_eq a None"
  by (simp add: float_eq_def split: option.splits)

lemma net_area_condition_iff:
  "net_area_condition r \<longleftrightarrow> NetArea (base r) = Some 0 \<and> UsageType (base r) \<noteq> None"
  by (auto simp: net_area_condition_def float_eq_def split: option.splits)

lemma net_area_warnings_eq:
  "net_area_warnings rs =
     map (\<lambda>r. NetAreaZeroWithUsage (idx (base r))) (filter net_area_condition rs)"
  by (induction rs) auto

text \<open>
  C8. For every record whose net area is zero or missing while its UsageType is not
  missing, a diagnostic naming that record's row is emitted. The code compares the net
  area with \<open>np.nan\<close> by \<open>==\<close>, which never holds, so a record with a blank net area
  and a usage draws no diagnostic: the run on the single row \<open>blank_area_row\<close> emits
  nothing.
\<close>

theorem C8_blank_net_area_not_reported:
  "NetArea blank_area_row = None
   \<and> UsageType blank_area_row = Some ''Office''
   \<and> fst (zoning_example [blank_area_row]) = []
   \<and> fst (import_building_from_excel catalogue [blank_area_row]) = []"
  by (simp add: zoning_eval import_eval blank_area_row_def)

subsection \<open>Facts about \<open>groupby\<close>\<close>

lemma group_keys_set:
  "set (group_keys key rank rows) = {k. \<exists>r\<in>set rows. key r = Some k}"
proof -
  have "set (List.map_filter key rows) = {k. \<exists>r\<in>set rows. key r = Some k}"
    by (force simp: List.map_filter_def image_iff)
  then show ?thesis by (simp add: group_keys_def)
qed

lemma group_keys_distinct: "distinct (group_keys key rank rows)"
  by (simp add: group_keys_def)

lemma groupby_eq:
  "groupby key rank rows =
     map (\<lambda>k. (k, hd (filter (\<lambda>r. key r = Some k) rows), tl (filter (\<lambda>r. key r = Some k) rows)))
       (group_keys key rank rows)"
proof -
  have ne: "filter (\<lambda>r. key r = Some k) rows \<noteq> []" if "k \<in> set (group_keys key rank rows)" for k
    using that by (auto simp: group_keys_set filter_empty_conv)
  have "groupby key rank rows =
      map (the \<circ> (\<lambda>k. case filter (\<lambda>r. key r = Some k) rows of [] \<Rightarrow> None | r # rs \<Rightarrow> Some (k, r, rs)))
        (filter (\<lambda>k. (case filter (\<lambda>r. key r = Some k) rows of [] \<Rightarrow> None | r # rs \<Rightarrow> Some (k, r, rs)) \<noteq> None)
           (group_keys key rank rows))"
    by (simp add: groupby_def List.map_filter_def)
  also have "filter (\<lambda>k. (case filter (\<lambda>r. key r = Some k) rows of [] \<Rightarrow> None | r # rs \<Rightarrow> Some (k, r, rs)) \<noteq> None)
           (group_keys key rank rows) = group_keys key rank rows"
    using ne by (intro filter_True) (auto split: list.splits)
  also have "map (the \<circ> (\<lambda>k. case filter (\<lambda>r. key r = Some k) rows of [] \<Rightarrow> None | r # rs \<Rightarrow> Some (k, r, rs)))
        (group_keys key rank rows) =
      map (\<lambda>k. (k, hd (filter (\<lambda>r. key r = Some k) rows), tl (filter (\<lambda>r. key r = Some k) rows)))
        (group_keys key rank rows)"
    using ne by (intro map_cong) (auto split: list.splits)
  finally show ?thesis .
qed

lemma groupby_fst: "map fst (groupby key rank rows) = group_keys key rank rows"
  by (simp add: groupby_eq comp_def)

lemma groupby_rows:
  assumes "(k, g) \<in> set (groupby key rank rows)"
  shows "rows_of g = filter (\<lambda>r. key r = Some k) rows" and "k \<in> set (group_keys key rank rows)"
proof -
  from assms have k: "k \<in> set (group_keys key rank rows)"
    and g: "g = (hd (filter (\<lambda>r. key r = Some k) rows), tl (filter (\<lambda>r. key r = Some k) rows))"
    by (auto simp: groupby_eq)
  from k have "filter (\<lambda>r. key r = Some k) rows \<noteq> []"
    by (auto simp: group_keys_set filter_empty_conv)
  with g show "rows_of g = filter (\<lambda>r. key r = Some k) rows"
    by (simp add: rows_of_def)
  from k show "k \<in> set (group_keys key rank rows)" .
qed

lemma groupby_member:
  assumes "k \<in> set (group_keys key rank rows)"
  shows "\<exists>g. (k, g) \<in> set (groupby key rank rows)"
  using assms by (auto simp: groupby_eq)

subsection \<open>What the cluster loops compute\<close>

lemma main_usages_Cons:
  "main_usages k (l # ls) =
     (if RoomCluster l = Some k \<and> BelongsToIdentifier (base l) = None
      then (case UsageType (base l) of None \<Rightarrow> main_usages k ls | Some u \<Rightarrow> u # main_usages k ls)
      else main_usages k ls)"
  by (simp add: main_usages_def List.map_filter_def split: option.splits)

lemma main_usages_Nil: "main_usages k [] = []"
  by (simp add: main_usages_def List.map_filter_def)

lemma main_usages_filter:
  "main_usages k (filter (\<lambda>r. RoomCluster r = Some k) data) = main_usages k data"
  by (induction data) (auto simp: main_usages_Cons main_usages_Nil split: option.splits)

lemma last_main_usage_eq:
  "last_main_usage k data =
     (if main_usages k data = [] then None else Some (last (main_usages k data)))"
  by (cases "main_usages k data" rule: rev_cases) (simp_all add: last_main_usage_def)

lemma cluster_labels_map:
  assumes "\<And>r. RoomCluster (f r) = RoomCluster r" and "\<And>r. idx (base (f r)) = idx (base r)"
  shows "cluster_labels k (map f data) = cluster_labels k data"
  by (induction data) (simp_all add: cluster_labels_def assms)

lemma set_cluster_usage_labels:
  assumes "RoomCluster line = Some k"
  shows "set_cluster_usage line u data =
     map (\<lambda>r. if idx (base r) \<in> set (cluster_labels k data)
               then r\<lparr>RoomClusterUsage := Some u\<rparr> else r) data"
proof -
  have "same_cluster i line \<longleftrightarrow> RoomCluster i = Some k" for i
    using assms by (auto simp: same_cluster_def)
  then show ?thesis
    by (simp add: set_cluster_usage_def cluster_labels_def)
qed

lemma cluster_lines_spec:
  assumes "\<forall>l\<in>set lines. RoomCluster l = Some k"
  shows "cluster_lines lines (data, col, n) =
     (map (\<lambda>r. if idx (base r) \<in> set (cluster_labels k data) \<and> main_usages k lines \<noteq> []
                then r\<lparr>RoomClusterUsage := Some (last (main_usages k lines))\<rparr> else r) data,
      col \<or> (main_usages k lines \<noteq> [] \<and> (\<exists>r\<in>set data. RoomCluster r = Some k)),
      n + length (main_usages k lines))"
  using assms
proof (induction lines arbitrary: data col n)
  case Nil
  then show ?case by (simp add: main_usages_Nil)
next
  case (Cons l ls)
  then have lk: "RoomCluster l = Some k" and rest: "\<forall>l\<in>set ls. RoomCluster l = Some k"
    by auto
  note IH = Cons.IH[OF rest]
  show ?case
  proof (cases "BelongsToIdentifier (base l) = None \<and> UsageType (base l) \<noteq> None")
    case False
    then have "cluster_lines (l # ls) (data, col, n) = cluster_lines ls (data, col, n)"
      by (auto split: option.splits)
    moreover from False lk have "main_usages k (l # ls) = main_usages k ls"
      by (auto simp: main_usages_Cons split: option.splits)
    ultimately show ?thesis using IH by simp
  next
    case True
    then obtain u where u: "UsageType (base l) = Some u" and b: "BelongsToIdentifier (base l) = None"
      by auto
    let ?upd = "\<lambda>r. if idx (base r) \<in> set (cluster_labels k data)
                     then r\<lparr>RoomClusterUsage := Some u\<rparr> else r"
    have same: "same_cluster r l \<longleftrightarrow> RoomCluster r = Some k" for r
      using lk by (auto simp: same_cluster_def)
    have step: "cluster_lines (l # ls) (data, col, n) =
        cluster_lines ls (map ?upd data, col \<or> (\<exists>r\<in>set data. RoomCluster r = Some k), n + 1)"
      using u b by (simp add: set_cluster_usage_labels[OF lk] same list_ex_iff)
    have mu: "main_usages k (l # ls) = u # main_usages k ls"
      using u b lk by (simp add: main_usages_Cons)
    have labels: "cluster_labels k (map ?upd data) = cluster_labels k data"
      by (rule cluster_labels_map) simp_all
    have mrc: "map RoomCluster (map ?upd data) = map RoomCluster data"
      by (induction data) auto
    have ex_conv: "(\<exists>r\<in>set d. RoomCluster r = Some k) \<longleftrightarrow> Some k \<in> set (map RoomCluster d)"
      for d :: "zrow list"
      by force
    have ex: "(\<exists>r\<in>set (map ?upd data). RoomCluster r = Some k) \<longleftrightarrow> (\<exists>r\<in>set data. RoomCluster r = Some k)"
      unfolding ex_conv mrc ..
    show ?thesis
      unfolding step IH mu labels ex
      by (auto simp: comp_def)
  qed
qed

text \<open>
  The clusters are visited in turn; a later cluster overwrites what an earlier one
  wrote into a row carrying one of its labels.
\<close>

lemma cluster_loop_spec:
  assumes "\<forall>(k, g)\<in>set gs. \<forall>l\<in>set (rows_of g). RoomCluster l = Some k"
  shows "cluster_loop gs (data, col, w) =
     (map (\<lambda>r. r\<lparr>RoomClusterUsage :=
                   foldl (\<lambda>u kg. if idx (base r) \<in> set (cluster_labels (fst kg) data)
                                     \<and> main_usages (fst kg) (rows_of (snd kg)) \<noteq> []
                                  then Some (last (main_usages (fst kg) (rows_of (snd kg))))
                                  else u)
                     (RoomClusterUsage r) gs\<rparr>) data,
      col \<or> (\<exists>(k, g)\<in>set gs. main_usages k (rows_of g) \<noteq> [] \<and> (\<exists>r\<in>set data. RoomCluster r = Some k)),
      w @ concat (map (\<lambda>(k, g). if length (main_usages k (rows_of g)) \<noteq> 1
                                then [ClusterMainUsageCount k (map (\<lambda>r. idx (base r)) (rows_of g))]
                                else []) gs))"
  using assms
proof (induction gs arbitrary: data col w)
  case Nil
  then show ?case by simp
next
  case (Cons kg gs)
  obtain k g where kg: "kg = (k, g)" by (cases kg)
  from Cons.prems kg have lines: "\<forall>l\<in>set (rows_of g). RoomCluster l = Some k"
    and rest: "\<forall>(k, g)\<in>set gs. \<forall>l\<in>set (rows_of g). RoomCluster l = Some k"
    by auto
  let ?mu = "main_usages k (rows_of g)"
  let ?upd = "\<lambda>r. if idx (base r) \<in> set (cluster_labels k data) \<and> ?mu \<noteq> []
                then r\<lparr>RoomClusterUsage := Some (last ?mu)\<rparr> else r"
  let ?d1 = "map ?upd data"
  have labels: "cluster_labels k' ?d1 = cluster_labels k' data" for k'
    by (rule cluster_labels_map) simp_all
  have mrc: "map RoomCluster ?d1 = map RoomCluster data"
    by (induction data) auto
  have ex_conv: "(\<exists>r\<in>set d. RoomCluster r = Some k') \<longleftrightarrow> Some k' \<in> set (map RoomCluster d)"
    for d :: "zrow list" and k'
    by force
  have rc: "(\<exists>r\<in>set ?d1. RoomCluster r = Some k') \<longleftrightarrow> (\<exists>r\<in>set data. RoomCluster r = Some k')" for k'
    unfolding ex_conv mrc ..
  have step: "cluster_loop (kg # gs) (data, col, w) =
      cluster_loop gs (?d1, col \<or> (?mu \<noteq> [] \<and> (\<exists>r\<in>set data. RoomCluster r = Some k)),
         if length ?mu \<noteq> 1 then w @ [ClusterMainUsageCount k (map (\<lambda>r. idx (base r)) (rows_of g))] else w)"
    by (simp add: kg cluster_lines_spec[OF lines])
  show ?case
    unfolding step Cons.IH[OF rest] labels rc
  proof (intro prod.inject[THEN iffD2] conjI)
    show "map (\<lambda>r. r\<lparr>RoomClusterUsage :=
                   foldl (\<lambda>u kg. if idx (base r) \<in> set (cluster_labels (fst kg) data)
                                     \<and> main_usages (fst kg) (rows_of (snd kg)) \<noteq> []
                                  then Some (last (main_usages (fst kg) (rows_of (snd kg))))
                                  else u)
                     (RoomClusterUsage r) gs\<rparr>) ?d1
        = map (\<lambda>r. r\<lparr>RoomClusterUsage :=
                   foldl (\<lambda>u kg. if idx (base r) \<in> set (cluster_labels (fst kg) data)
                                     \<and> main_usages (fst kg) (rows_of (snd kg)) \<noteq> []
                                  then Some (last (main_usages (fst kg) (rows_of (snd kg))))
                                  else u)
                     (RoomClusterUsage r) (kg # gs)\<rparr>) data"
      unfolding map_map
      by (rule map_cong[OF refl]) (simp add: kg)
  next
    show "((col \<or> (?mu \<noteq> [] \<and> (\<exists>r\<in>set data. RoomCluster r = Some k)))
         \<or> (\<exists>(k, g)\<in>set gs. main_usages k (rows_of g) \<noteq> [] \<and> (\<exists>r\<in>set data. RoomCluster r = Some k)))
       = (col \<or> (\<exists>(k, g)\<in>set (kg # gs). main_usages k (rows_of g) \<noteq> [] \<and> (\<exists>r\<in>set data. RoomCluster r = Some k)))"
      by (auto simp: kg)
  next
    show "(if length ?mu \<noteq> 1 then w @ [ClusterMainUsageCount k (map (\<lambda>r. idx (base r)) (rows_of g))] else w)
          @ concat (map (\<lambda>(k, g). if length (main_usages k (rows_of g)) \<noteq> 1
                                then [ClusterMainUsageCount k (map (\<lambda>r. idx (base r)) (rows_of g))]
                                else []) gs)
        = w @ concat (map (\<lambda>(k, g). if length (main_usages k (rows_of g)) \<noteq> 1
                                then [ClusterMainUsageCount k (map (\<lambda>r. idx (base r)) (rows_of g))]
                                else []) (kg # gs))"
      by (simp add: kg)
  qed
qed

lemma main_usage_of_clusters_spec:
  "main_usage_of_clusters data =
     (map (\<lambda>r. r\<lparr>RoomClusterUsage := resolved_usage data r\<rparr>) data,
      (\<exists>k\<in>set (group_keys RoomCluster id data). main_usages k data \<noteq> []),
      concat (map (\<lambda>k. if length (main_usages k data) \<noteq> 1
                         then [ClusterMainUsageCount k (cluster_labels k data)] else [])
                (group_keys RoomCluster id data)))"
proof -
  let ?gs = "groupby RoomCluster id data"
  have rows: "rows_of g = filter (\<lambda>r. RoomCluster r = Some k) data" if "(k, g) \<in> set ?gs" for k g
    using groupby_rows(1)[OF that] .
  have lines: "\<forall>(k, g)\<in>set ?gs. \<forall>l\<in>set (rows_of g). RoomCluster l = Some k"
    using rows by auto
  have mu: "main_usages k (rows_of g) = main_usages k data" if "(k, g) \<in> set ?gs" for k g
    using rows[OF that] by (simp add: main_usages_filter)
  have lab: "map (\<lambda>r. idx (base r)) (rows_of g) = cluster_labels k data" if "(k, g) \<in> set ?gs" for k g
    using rows[OF that] by (simp add: cluster_labels_def)
  have fold: "foldl (\<lambda>u kg. if idx (base r) \<in> set (cluster_labels (fst kg) data)
                                     \<and> main_usages (fst kg) (rows_of (snd kg)) \<noteq> []
                                  then Some (last (main_usages (fst kg) (rows_of (snd kg))))
                                  else u) a ?gs
      = resolved_usage data (r\<lparr>RoomClusterUsage := a\<rparr>)" for r a
  proof -
    have "foldl (\<lambda>u kg. if idx (base r) \<in> set (cluster_labels (fst kg) data)
                                     \<and> main_usages (fst kg) (rows_of (snd kg)) \<noteq> []
                                  then Some (last (main_usages (fst kg) (rows_of (snd kg))))
                                  else u) a ?gs
        = foldl (\<lambda>u kg. if idx (base r) \<in> set (cluster_labels (fst kg) data)
                                     \<and> main_usages (fst kg) data \<noteq> []
                                  then last_main_usage (fst kg) data
                                  else u) a ?gs"
      by (rule foldl_cong[OF refl refl]) (use mu in \<open>auto simp: last_main_usage_eq\<close>)
    also have "\<dots> = foldl (\<lambda>u k. if idx (base r) \<in> set (cluster_labels k data)
                                     \<and> main_usages k data \<noteq> []
                                  then last_main_usage k data
                                  else u) a (map fst ?gs)"
      by (simp add: foldl_map)
    finally show ?thesis
      by (simp add: resolved_usage_def groupby_fst)
  qed
  have d: "map (\<lambda>r. r\<lparr>RoomClusterUsage :=
                   foldl (\<lambda>u kg. if idx (base r) \<in> set (cluster_labels (fst kg) data)
                                     \<and> main_usages (fst kg) (rows_of (snd kg)) \<noteq> []
                                  then Some (last (main_usages (fst kg) (rows_of (snd kg))))
                                  else u)
                     (RoomClusterUsage r) ?gs\<rparr>) data
      = map (\<lambda>r. r\<lparr>RoomClusterUsage := resolved_usage data r\<rparr>) data"
    unfolding fold by simp
  have c: "(\<exists>(k, g)\<in>set ?gs. main_usages k (rows_of g) \<noteq> [] \<and> (\<exists>r\<in>set data. RoomCluster r = Some k))
      \<longleftrightarrow> (\<exists>k\<in>set (group_keys RoomCluster id data). main_usages k data \<noteq> [])"
  proof
    assume "\<exists>(k, g)\<in>set ?gs. main_usages k (rows_of g) \<noteq> [] \<and> (\<exists>r\<in>set data. RoomCluster r = Some k)"
    then obtain k g where g: "(k, g) \<in> set ?gs" and ne: "main_usages k (rows_of g) \<noteq> []"
      by auto
    from groupby_rows(2)[OF g] mu[OF g] ne
    show "\<exists>k\<in>set (group_keys RoomCluster id data). main_usages k data \<noteq> []"
      by auto
  next
    assume "\<exists>k\<in>set (group_keys RoomCluster id data). main_usages k data \<noteq> []"
    then obtain k where k: "k \<in> set (group_keys RoomCluster id data)" and ne: "main_usages k data \<noteq> []"
      by auto
    from k obtain g where g: "(k, g) \<in> set ?gs"
      using groupby_member by fastforce
    from k have "\<exists>r\<in>set data. RoomCluster r = Some k"
      by (auto simp: group_keys_set)
    with g mu[OF g] ne
    show "\<exists>(k, g)\<in>set ?gs. main_usages k (rows_of g) \<noteq> [] \<and> (\<exists>r\<in>set data. RoomCluster r = Some k)"
      by (intro bexI[of _ "(k, g)"]) auto
  qed
  have "map (\<lambda>(k, g). if length (main_usages k (rows_of g)) \<noteq> 1
                                then [ClusterMainUsageCount k (map (\<lambda>r. idx (base r)) (rows_of g))]
                                else []) ?gs
      = map (\<lambda>kg. if length (main_usages (fst kg) data) \<noteq> 1
                         then [ClusterMainUsageCount (fst kg) (cluster_labels (fst kg) data)] else []) ?gs"
    by (rule map_cong[OF refl]) (auto simp: mu lab)
  also have "\<dots> = map (\<lambda>k. if length (main_usages k data) \<noteq> 1
                         then [ClusterMainUsageCount k (cluster_labels k data)] else [])
                (group_keys RoomCluster id data)"
    by (simp add: groupby_fst[symmetric] comp_def)
  finally have w: "concat (map (\<lambda>(k, g). if length (main_usages k (rows_of g)) \<noteq> 1
                                then [ClusterMainUsageCount k (map (\<lambda>r. idx (base r)) (rows_of g))]
                                else []) ?gs)
      = concat (map (\<lambda>k. if length (main_usages k data) \<noteq> 1
                         then [ClusterMainUsageCount k (cluster_labels k data)] else [])
                (group_keys RoomCluster id data))"
    by simp
  show ?thesis
    unfolding main_usage_of_clusters_def cluster_loop_spec[OF lines] d c w
    by simp
qed

lemma clusters_frame:
  "fst (main_usage_of_clusters data) =
     map (\<lambda>r. r\<lparr>RoomClusterUsage := resolved_usage data r\<rparr>) data"
  by (simp add: main_usage_of_clusters_spec)

lemma clusters_column:
  "fst (snd (main_usage_of_clusters d)) \<longleftrightarrow>
     (\<exists>k\<in>set (group_keys RoomCluster id d). main_usages k d \<noteq> [])"
  by (simp add: main_usage_of_clusters_spec)

lemma clusters_warnings:
  "snd (snd (main_usage_of_clusters d)) =
     concat (map (\<lambda>k. if length (main_usages k d) \<noteq> 1
                        then [ClusterMainUsageCount k (cluster_labels k d)] else [])
               (group_keys RoomCluster id d))"
  by (simp add: main_usage_of_clusters_spec)

lemma foldl_overwrite_Some:
  assumes "foldl (\<lambda>u k. if C k then V k else u) a ks = Some v"
  shows "a = Some v \<or> (\<exists>k\<in>set ks. C k)"
  using assms by (induction ks arbitrary: a) (auto split: if_splits)

lemma foldl_overwrite_one:
  "foldl (\<lambda>u x. if x = k \<and> P then v else u) a xs = (if k \<in> set xs \<and> P then v else a)"
  by (induction xs arbitrary: a) auto

lemma resolved_usage_column:
  assumes "resolved_usage data r = Some u" and "RoomClusterUsage r = None"
  shows "\<exists>k\<in>set (group_keys RoomCluster id data). main_usages k data \<noteq> []"
  using foldl_overwrite_Some[OF assms(1)[unfolded resolved_usage_def]] assms(2) by auto

text \<open>With distinct labels a row is overwritten by its own cluster only.\<close>

lemma resolved_usage_distinct:
  assumes "distinct (map (\<lambda>r. idx (base r)) data)" and "r \<in> set data"
  shows "resolved_usage data r =
     (case RoomCluster r of
        None \<Rightarrow> RoomClusterUsage r
      | Some k \<Rightarrow> if main_usages k data = [] then RoomClusterUsage r
                  else last_main_usage k data)"
proof -
  have inj: "inj_on (\<lambda>r. idx (base r)) (set data)"
    using assms(1) by (simp add: distinct_map)
  have hit: "idx (base r) \<in> set (cluster_labels k data) \<longleftrightarrow> RoomCluster r = Some k" for k
  proof
    assume "idx (base r) \<in> set (cluster_labels k data)"
    then obtain r' where "r' \<in> set data" "RoomCluster r' = Some k" "idx (base r') = idx (base r)"
      by (auto simp: cluster_labels_def)
    with inj assms(2) show "RoomCluster r = Some k"
      by (metis inj_onD)
  next
    assume "RoomCluster r = Some k"
    with assms(2) show "idx (base r) \<in> set (cluster_labels k data)"
      by (auto simp: cluster_labels_def)
  qed
  show ?thesis
  proof (cases "RoomCluster r")
    case None
    have "foldl (\<lambda>u k. u) (RoomClusterUsage r) ks = RoomClusterUsage r" for ks :: "string list"
      by (induction ks) simp_all
    with None show ?thesis
      by (simp add: resolved_usage_def hit)
  next
    case (Some k)
    have "resolved_usage data r =
        foldl (\<lambda>u x. if x = k \<and> main_usages k data \<noteq> [] then last_main_usage k data else u)
          (RoomClusterUsage r) (group_keys RoomCluster id data)"
      unfolding resolved_usage_def hit Some
      by (rule foldl_cong[OF refl refl]) auto
    also have "\<dots> = (if k \<in> set (group_keys RoomCluster id data) \<and> main_usages k data \<noteq> []
                      then last_main_usage k data else RoomClusterUsage r)"
      by (rule foldl_overwrite_one)
    finally have eq: "resolved_usage data r =
        (if k \<in> set (group_keys RoomCluster id data) \<and> main_usages k data \<noteq> []
         then last_main_usage k data else RoomClusterUsage r)" .
    have "k \<in> set (group_keys RoomCluster id data)"
      using assms(2) Some by (auto simp: group_keys_set)
    with eq Some show ?thesis by simp
  qed
qed

subsection \<open>The renaming loop\<close>

lemma present_entries_loop_set:
  "set (present_entries_loop xs acc) = set acc \<union> {v. Some v \<in> set xs}"
  by (induction xs arbitrary: acc) (auto split: option.splits)

lemma present_entries_loop_distinct:
  "distinct acc \<Longrightarrow> distinct (present_entries_loop xs acc)"
  by (induction xs arbitrary: acc) (auto split: option.splits)

lemma get_list_of_present_entries_set:
  "set (get_list_of_present_entries xs) = {v. Some v \<in> set xs}"
  by (simp add: get_list_of_present_entries_def present_entries_loop_set)

lemma get_list_of_present_entries_distinct:
  "distinct (get_list_of_present_entries xs)"
  by (simp add: get_list_of_present_entries_def present_entries_loop_distinct)

lemma rename_loop_error:
  assumes "u \<in> set us" and "map_of usage_to_json_usage u = None"
  shows "\<exists>u'\<in>set us. map_of usage_to_json_usage u' = None \<and> rename_loop us data = Inl (KeyError u')"
  using assms
proof (induction us arbitrary: data)
  case Nil
  then show ?case by simp
next
  case (Cons a us)
  show ?case
  proof (cases "map_of usage_to_json_usage a")
    case None
    then show ?thesis by auto
  next
    case (Some j)
    with Cons.prems have "u \<in> set us" by auto
    from Cons.IH[OF this Cons.prems(2)] Some show ?thesis by auto
  qed
qed

lemma rename_loop_ok:
  assumes "\<forall>u\<in>set us. map_of usage_to_json_usage u \<noteq> None"
  shows "rename_loop us data =
     Inr (map (\<lambda>r. case RoomClusterUsage r of
                     None \<Rightarrow> r
                   | Some u \<Rightarrow>
                       if u \<in> set us
                       then (case map_of usage_to_json_usage u of
                               None \<Rightarrow> r | Some j \<Rightarrow> r\<lparr>UsageType_Teaser := j\<rparr>)
                       else r) data)"
  using assms
proof (induction us arbitrary: data)
  case Nil
  have "map (\<lambda>r. case RoomClusterUsage r of
                     None \<Rightarrow> r
                   | Some u \<Rightarrow>
                       if u \<in> set ([] :: string list)
                       then (case map_of usage_to_json_usage u of
                               None \<Rightarrow> r | Some j \<Rightarrow> r\<lparr>UsageType_Teaser := j\<rparr>)
                       else r) data = data"
    by (rule map_idI) (simp split: option.splits)
  then show ?case by simp
next
  case (Cons a us)
  then obtain j where j: "map_of usage_to_json_usage a = Some j" by auto
  from Cons.prems have rest: "\<forall>u\<in>set us. map_of usage_to_json_usage u \<noteq> None" by simp
  show ?case
    unfolding rename_loop.simps j option.case Cons.IH[OF rest]
    by (auto simp: j split: option.splits)
qed

subsection \<open>The zoning function as a whole\<close>

lemma add_room_cluster_usage:
  "r \<in> set (add_room_cluster rows) \<Longrightarrow> RoomClusterUsage r = None"
  by (auto simp: add_room_cluster_def)

lemma add_room_cluster_labels:
  "map (\<lambda>r. idx (base r)) (add_room_cluster rows) = map idx rows"
  by (simp add: add_room_cluster_def comp_def)

lemma clusters_resolved:
  assumes "distinct (map idx rows)"
  shows "fst (main_usage_of_clusters (add_room_cluster rows)) =
     map (\<lambda>r. r\<lparr>RoomClusterUsage :=
                  (case RoomCluster r of
                     None \<Rightarrow> None
                   | Some k \<Rightarrow> last_main_usage k (add_room_cluster rows))\<rparr>)
       (add_room_cluster rows)"
proof -
  have d: "distinct (map (\<lambda>r. idx (base r)) (add_room_cluster rows))"
    using assms by (simp add: add_room_cluster_labels)
  show ?thesis
    unfolding clusters_frame
    by (rule map_cong[OF refl])
       (auto simp: resolved_usage_distinct[OF d] last_main_usage_eq
          dest: add_room_cluster_usage split: option.splits)
qed

lemma zoning_example_warnings:
  "fst (zoning_example data) =
     net_area_warnings (add_room_cluster (reclassify data))
     @ snd (snd (main_usage_of_clusters (add_room_cluster (reclassify data))))"
  by (auto simp: zoning_example_def Let_def split: prod.splits sum.splits)

lemma zoning_example_result:
  "snd (zoning_example data) =
     (let d3 = fst (main_usage_of_clusters (add_room_cluster (reclassify data)))
      in if \<not> fst (snd (main_usage_of_clusters (add_room_cluster (reclassify data))))
         then Inl (KeyError ''RoomClusterUsage'')
         else (case rename_loop (get_list_of_present_entries (map RoomClusterUsage d3))
                      (map (\<lambda>r. r\<lparr>UsageType_Teaser := []\<rparr>) d3) of
                 Inl e \<Rightarrow> Inl e
               | Inr d4 \<Rightarrow> Inr (map (\<lambda>r. r\<lparr>Zone := UsageType_Teaser r\<rparr>) d4)))"
  by (auto simp: zoning_example_def Let_def split: prod.splits sum.splits)

subsection \<open>The zone loop\<close>


lemma zone_loop_fail:
  assumes "g \<in> set gs" and "UsageType_Teaser (iloc0 (snd g)) \<notin> set catalogue"
  shows "\<exists>u. u \<notin> set catalogue \<and> snd (zone_loop catalogue gs (zs, w)) = Inl (ConfigurationError u)"
  using assms
proof (induction gs arbitrary: zs w)
  case Nil
  then show ?case by simp
next
  case (Cons a gs)
  obtain name zone where a: "a = (name, zone)" by (cases a)
  show ?case
  proof (cases "UsageType_Teaser (iloc0 zone) \<in> set catalogue")
    case True
    with Cons.prems a have "g \<in> set gs" by auto
    from Cons.IH[OF this Cons.prems(2)] True show ?thesis
      by (simp add: a load_use_conditions_def)
  next
    case False
    then show ?thesis
      by (auto simp: a load_use_conditions_def)
  qed
qed

lemma import_building_error:
  "snd (zoning_example data) = Inl e \<Longrightarrow> snd (import_building_from_excel catalogue data) = Inl e"
  by (cases "zoning_example data") (auto simp: import_building_from_excel_def)


lemma import_building_fail:
  assumes "snd (zoning_example data) = Inr out"
    and "g \<in> set (zone_groups out)" and "UsageType_Teaser (iloc0 (snd g)) \<notin> set catalogue"
  shows "\<exists>u. u \<notin> set catalogue
           \<and> snd (import_building_from_excel catalogue data) = Inl (ConfigurationError u)"
proof -
  obtain w where z: "zoning_example data = (w, Inr out)"
    using assms(1) by (cases "zoning_example data") auto
  from zone_loop_fail[OF assms(2,3), of "[]" w] obtain u where
    u: "u \<notin> set catalogue"
    and f: "snd (zone_loop catalogue (zone_groups out) ([], w)) = Inl (ConfigurationError u)"
    by blast
  from f have "snd (import_building_from_excel catalogue data) = Inl (ConfigurationError u)"
    by (cases "zone_loop catalogue (zone_groups out) ([], w)")
       (auto simp: import_building_from_excel_def z)
  with u show ?thesis by blast
qed

text \<open>
  C7 (as the code has it). When the usage resolved for some room is not a key of the
  usage dictionary, the renaming loop raises \<open>KeyError\<close> for such a label, and the
  exception ends \<open>zoning_example\<close> and with it the import run: no zone is formed for
  any room.
\<close>

theorem C7_unknown_usage_aborts:
  assumes "r \<in> set (fst (main_usage_of_clusters (add_room_cluster (reclassify data))))"
    and "RoomClusterUsage r = Some u"
    and "map_of usage_to_json_usage u = None"
  shows "\<exists>u'. map_of usage_to_json_usage u' = None
           \<and> snd (zoning_example data) = Inl (KeyError u')
           \<and> snd (import_building_from_excel catalogue data) = Inl (KeyError u')"
proof -
  let ?d2 = "add_room_cluster (reclassify data)"
  let ?d3 = "fst (main_usage_of_clusters ?d2)"
  from assms(1) obtain r0 where r0: "r0 \<in> set ?d2"
    and r: "r = r0\<lparr>RoomClusterUsage := resolved_usage ?d2 r0\<rparr>"
    unfolding clusters_frame by auto
  from r assms(2) have "resolved_usage ?d2 r0 = Some u" by simp
  from resolved_usage_column[OF this add_room_cluster_usage[OF r0]]
  have col: "fst (snd (main_usage_of_clusters ?d2))"
    unfolding clusters_column .
  from assms(1,2) have "u \<in> set (get_list_of_present_entries (map RoomClusterUsage ?d3))"
    by (force simp: get_list_of_present_entries_set)
  from rename_loop_error[OF this assms(3)] obtain u' where
    u': "map_of usage_to_json_usage u' = None"
    and err: "rename_loop (get_list_of_present_entries (map RoomClusterUsage ?d3))
                (map (\<lambda>r. r\<lparr>UsageType_Teaser := []\<rparr>) ?d3) = Inl (KeyError u')"
    by blast
  from col err have z: "snd (zoning_example data) = Inl (KeyError u')"
    by (simp add: zoning_example_result)
  from u' z import_building_error[OF z] show ?thesis by blast
qed

theorem C7_unknown_usage_aborts_witness:
  "(\<exists>r \<in> set (fst (main_usage_of_clusters (add_room_cluster (reclassify unknown_usage_table)))).
      RoomClusterUsage r = Some ''Kitchen'')
   \<and> map_of usage_to_json_usage ''Kitchen'' = None
   \<and> (\<exists>u'. map_of usage_to_json_usage u' = None
           \<and> snd (zoning_example unknown_usage_table) = Inl (KeyError u')
           \<and> snd (import_building_from_excel sample_catalogue unknown_usage_table)
               = Inl (KeyError u'))"
proof -
  have m: "map_of usage_to_json_usage ''Kitchen'' = None"
    by (simp add: usage_to_json_usage_def)
  have "map RoomClusterUsage (fst (main_usage_of_clusters (add_room_cluster (reclassify unknown_usage_table))))
      = [Some ''Office'', Some ''Kitchen'']"
    by (simp add: zoning_eval unknown_usage_table_def)
  then have "Some ''Kitchen'' \<in> RoomClusterUsage ` set (fst (main_usage_of_clusters (add_room_cluster (reclassify unknown_usage_table))))"
    by (metis list.set_intros(1,2) list.set_map)
  then obtain r where r: "r \<in> set (fst (main_usage_of_clusters (add_room_cluster (reclassify unknown_usage_table))))"
    and ru: "RoomClusterUsage r = Some ''Kitchen''"
    by force
  from C7_unknown_usage_aborts[OF r ru m, of sample_catalogue] r ru m show ?thesis by blast
qed

text \<open>
  C7 as stated fails: with an office in room R1 and a room R2 of usage "Kitchen",
  which the dictionary does not have, the run ends with \<open>KeyError\<close> and forms no zone,
  not even for the office.
\<close>

theorem C7_counterexample:
  "import_building_from_excel sample_catalogue unknown_usage_table
     = ([], Inl (KeyError ''Kitchen''))"
  by (simp add: zoning_eval import_building_from_excel_def unknown_usage_table_def)

subsection \<open>Zones formed by the import run\<close>



lemma groupby_iloc0:
  assumes "(k, g) \<in> set (groupby key rank rows)"
  shows "key (iloc0 g) = Some k"
proof -
  have "iloc0 g \<in> set (rows_of g)" by (simp add: iloc0_def rows_of_def)
  then show ?thesis unfolding groupby_rows(1)[OF assms] by simp
qed

lemma groupby_iloc0_mem:
  assumes "(k, g) \<in> set (groupby key rank rows)"
  shows "iloc0 g \<in> set rows"
proof -
  have "iloc0 g \<in> set (rows_of g)" by (simp add: iloc0_def rows_of_def)
  then show ?thesis unfolding groupby_rows(1)[OF assms] by simp
qed

lemma count_cluster_warnings:
  assumes "distinct ks"
  shows "count_list
           (concat (map (\<lambda>k. if P k then [ClusterMainUsageCount k (L k)] else []) ks))
           (ClusterMainUsageCount k0 (L k0))
         = (if k0 \<in> set ks \<and> P k0 then 1 else 0)"
  using assms by (induction ks) auto

lemma count_net_area_warnings:
  "count_list (net_area_warnings rs) (ClusterMainUsageCount k l) = 0"
  by (induction rs) auto

lemma reclassify_labels: "map idx (reclassify data) = map idx data"
  by (rule reclassify_column) (rule reclassified_keeps)

lemma zoning_example_out:
  assumes "snd (zoning_example data) = Inr out"
  shows "out =
     map (\<lambda>r. r\<lparr>UsageType_Teaser :=
                   (case RoomClusterUsage r of
                      None \<Rightarrow> []
                    | Some u \<Rightarrow> (case map_of usage_to_json_usage u of None \<Rightarrow> [] | Some j \<Rightarrow> j)),
                 Zone :=
                   (case RoomClusterUsage r of
                      None \<Rightarrow> []
                    | Some u \<Rightarrow> (case map_of usage_to_json_usage u of None \<Rightarrow> [] | Some j \<Rightarrow> j))\<rparr>)
       (fst (main_usage_of_clusters (add_room_cluster (reclassify data))))"
proof -
  let ?d3 = "fst (main_usage_of_clusters (add_room_cluster (reclassify data)))"
  let ?us = "get_list_of_present_entries (map RoomClusterUsage ?d3)"
  let ?d3' = "map (\<lambda>r. r\<lparr>UsageType_Teaser := []\<rparr>) ?d3"
  from assms obtain d4 where r: "rename_loop ?us ?d3' = Inr d4"
    and out: "out = map (\<lambda>r. r\<lparr>Zone := UsageType_Teaser r\<rparr>) d4"
    by (auto simp: zoning_example_result Let_def split: if_splits sum.splits)
  have known: "\<forall>u\<in>set ?us. map_of usage_to_json_usage u \<noteq> None"
  proof (rule ccontr)
    assume "\<not> ?thesis"
    then obtain u where "u \<in> set ?us" "map_of usage_to_json_usage u = None" by auto
    from rename_loop_error[OF this, of ?d3'] r show False by auto
  qed
  from r rename_loop_ok[OF known, of ?d3']
  have d4: "d4 = map (\<lambda>r. case RoomClusterUsage r of
                     None \<Rightarrow> r
                   | Some u \<Rightarrow>
                       if u \<in> set ?us
                       then (case map_of usage_to_json_usage u of
                               None \<Rightarrow> r | Some j \<Rightarrow> r\<lparr>UsageType_Teaser := j\<rparr>)
                       else r) ?d3'"
    by simp
  have mem: "u \<in> set ?us" if "r \<in> set ?d3" "RoomClusterUsage r = Some u" for r u
    using that by (force simp: get_list_of_present_entries_set)
  show ?thesis
    unfolding out d4 map_map
  proof (rule map_cong[OF refl])
    fix r assume r: "r \<in> set ?d3"
    show "((\<lambda>r. r\<lparr>Zone := UsageType_Teaser r\<rparr>) \<circ>
          ((\<lambda>r. case RoomClusterUsage r of
                     None \<Rightarrow> r
                   | Some u \<Rightarrow>
                       if u \<in> set ?us
                       then (case map_of usage_to_json_usage u of
                               None \<Rightarrow> r | Some j \<Rightarrow> r\<lparr>UsageType_Teaser := j\<rparr>)
                       else r) \<circ> (\<lambda>r. r\<lparr>UsageType_Teaser := []\<rparr>))) r
       = r\<lparr>UsageType_Teaser :=
                   (case RoomClusterUsage r of
                      None \<Rightarrow> []
                    | Some u \<Rightarrow> (case map_of usage_to_json_usage u of None \<Rightarrow> [] | Some j \<Rightarrow> j)),
                 Zone :=
                   (case RoomClusterUsage r of
                      None \<Rightarrow> []
                    | Some u \<Rightarrow> (case map_of usage_to_json_usage u of None \<Rightarrow> [] | Some j \<Rightarrow> j))\<rparr>"
      using mem[OF r] by (auto split: option.splits)
  qed
qed

lemma zoning_example_out_zone:
  assumes "snd (zoning_example data) = Inr out" and "r \<in> set out"
  shows "UsageType_Teaser r = Zone r"
    and "Zone r = (case RoomClusterUsage r of
                      None \<Rightarrow> []
                    | Some u \<Rightarrow> (case map_of usage_to_json_usage u of None \<Rightarrow> [] | Some j \<Rightarrow> j))"
  using assms(2) unfolding zoning_example_out[OF assms(1)] by auto

lemma zoning_example_out_clusters:
  assumes "snd (zoning_example data) = Inr out"
  shows "map RoomCluster out = map RoomCluster (add_room_cluster (reclassify data))"
  unfolding zoning_example_out[OF assms] clusters_frame
  by (simp add: comp_def)

lemma zoning_example_out_usages:
  assumes "snd (zoning_example data) = Inr out"
  shows "map (\<lambda>r. (RoomCluster r, RoomClusterUsage r)) out
       = map (\<lambda>r. (RoomCluster r, RoomClusterUsage r))
           (fst (main_usage_of_clusters (add_room_cluster (reclassify data))))"
  unfolding zoning_example_out[OF assms]
  by (simp add: comp_def)

lemma blank_zone_fails:
  assumes "snd (zoning_example data) = Inr out" and "r \<in> set out" and "Zone r = []"
    and "[] \<notin> set catalogue"
  shows "\<exists>e. snd (import_building_from_excel catalogue data) = Inl e"
proof -
  from assms(2,3) have "[] \<in> set (group_keys (\<lambda>r. Some (Zone r)) id out)"
    by (force simp: group_keys_set)
  from groupby_member[OF this] obtain g where
    g: "([], g) \<in> set (groupby (\<lambda>r. Some (Zone r)) id out)" by blast
  from groupby_iloc0[OF g] groupby_iloc0_mem[OF g]
  have "Zone (iloc0 g) = []" and "iloc0 g \<in> set out" by simp_all
  with zoning_example_out_zone(1)[OF assms(1)] have "UsageType_Teaser (iloc0 g) = []" by simp
  with assms(4) have n: "UsageType_Teaser (iloc0 (snd ([], g))) \<notin> set catalogue" by simp
  from g have m: "([], g) \<in> set (zone_groups out)" by (simp add: zone_groups_def)
  from import_building_fail[OF assms(1) m n] show ?thesis by blast
qed

text \<open>
  C1 (as the code has it). For every room cluster of a frame with distinct index
  labels, the records with no back-reference and a usage are counted; if the count is
  not exactly 1, one diagnostic carrying the cluster's key and row labels is emitted.
  Processing continues, and every record of the cluster gets the usage of the last
  such record (each match overwrites the one before). If there is no match, the
  cluster's usage stays blank and the cluster is assigned to no zone: its records get
  the empty Zone label, which is no key of the use-condition catalogue, so that the
  run ends with an error and forms no zone.
\<close>

theorem C1_cluster_main_usage:
  assumes "distinct (map idx data)"
    and "k \<in> set (group_keys RoomCluster id (add_room_cluster (reclassify data)))"
  shows "count_list (fst (zoning_example data))
           (ClusterMainUsageCount k (cluster_labels k (add_room_cluster (reclassify data))))
         = (if length (main_usages k (add_room_cluster (reclassify data))) \<noteq> 1 then 1 else 0)
       \<and> (\<forall>r\<in>set (fst (main_usage_of_clusters (add_room_cluster (reclassify data)))).
             RoomCluster r = Some k
             \<longrightarrow> RoomClusterUsage r = last_main_usage k (add_room_cluster (reclassify data)))
       \<and> (\<forall>out r. snd (zoning_example data) = Inr out \<and> r \<in> set out \<and> RoomCluster r = Some k
             \<longrightarrow> RoomClusterUsage r = last_main_usage k (add_room_cluster (reclassify data)))
       \<and> (main_usages k (add_room_cluster (reclassify data)) = []
             \<longrightarrow> (\<forall>r\<in>set (fst (main_usage_of_clusters (add_room_cluster (reclassify data)))).
                     RoomCluster r = Some k \<longrightarrow> RoomClusterUsage r = None)
               \<and> (\<forall>out r. snd (zoning_example data) = Inr out \<and> r \<in> set out
                      \<and> RoomCluster r = Some k
                     \<longrightarrow> RoomClusterUsage r = None \<and> Zone r = [])
               \<and> ([] \<notin> set catalogue
                     \<longrightarrow> (\<exists>e. snd (import_building_from_excel catalogue data) = Inl e)))"
proof -
  let ?d2 = "add_room_cluster (reclassify data)"
  let ?d3 = "fst (main_usage_of_clusters ?d2)"
  from assms(1) have dl: "distinct (map idx (reclassify data))"
    by (simp add: reclassify_labels)
  have res: "RoomClusterUsage r = last_main_usage k ?d2"
    if "r \<in> set ?d3" "RoomCluster r = Some k" for r
    using that unfolding clusters_resolved[OF dl] by auto
  have res_out: "RoomClusterUsage r = last_main_usage k ?d2"
    if z: "snd (zoning_example data) = Inr out" and r: "r \<in> set out"
      and rk: "RoomCluster r = Some k" for out r
  proof -
    from r rk have "(Some k, RoomClusterUsage r)
          \<in> set (map (\<lambda>r. (RoomCluster r, RoomClusterUsage r)) out)"
      by force
    then have "(Some k, RoomClusterUsage r)
          \<in> set (map (\<lambda>r. (RoomCluster r, RoomClusterUsage r)) ?d3)"
      unfolding zoning_example_out_usages[OF z] .
    then obtain r' where "r' \<in> set ?d3" "RoomCluster r' = Some k"
      "RoomClusterUsage r' = RoomClusterUsage r"
      by auto
    with res[of r'] show ?thesis by simp
  qed
  have c1: "count_list (fst (zoning_example data)) (ClusterMainUsageCount k (cluster_labels k ?d2))
         = (if length (main_usages k ?d2) \<noteq> 1 then 1 else 0)"
  proof -
    have c: "count_list
        (concat (map (\<lambda>k. if length (main_usages k ?d2) \<noteq> 1
                            then [ClusterMainUsageCount k (cluster_labels k ?d2)] else [])
                  (group_keys RoomCluster id ?d2)))
        (ClusterMainUsageCount k (cluster_labels k ?d2))
      = (if k \<in> set (group_keys RoomCluster id ?d2) \<and> length (main_usages k ?d2) \<noteq> 1
         then 1 else 0)"
      by (rule count_cluster_warnings[OF group_keys_distinct])
    show ?thesis
      unfolding zoning_example_warnings clusters_warnings count_list_append
        count_net_area_warnings c
      using assms(2) by simp
  qed
  have c2: "\<forall>r\<in>set ?d3. RoomCluster r = Some k \<longrightarrow> RoomClusterUsage r = last_main_usage k ?d2"
    using res by blast
  have c3: "\<forall>out r. snd (zoning_example data) = Inr out \<and> r \<in> set out \<and> RoomCluster r = Some k
             \<longrightarrow> RoomClusterUsage r = last_main_usage k ?d2"
    using res_out by blast
  have c4: "(\<forall>r\<in>set ?d3. RoomCluster r = Some k \<longrightarrow> RoomClusterUsage r = None)
               \<and> (\<forall>out r. snd (zoning_example data) = Inr out \<and> r \<in> set out
                      \<and> RoomCluster r = Some k
                     \<longrightarrow> RoomClusterUsage r = None \<and> Zone r = [])
               \<and> ([] \<notin> set catalogue
                     \<longrightarrow> (\<exists>e. snd (import_building_from_excel catalogue data) = Inl e))"
    if e: "main_usages k ?d2 = []"
  proof (intro conjI)
    from e have l: "last_main_usage k ?d2 = None" by (simp add: last_main_usage_eq)
    show "\<forall>r\<in>set ?d3. RoomCluster r = Some k \<longrightarrow> RoomClusterUsage r = None"
      using res l by simp
    have blank: "RoomClusterUsage r = None \<and> Zone r = []"
      if z: "snd (zoning_example data) = Inr out" and r: "r \<in> set out"
        and rk: "RoomCluster r = Some k" for out r
    proof -
      from res_out[OF z r rk] l have n: "RoomClusterUsage r = None" by simp
      with zoning_example_out_zone(2)[OF z r] show ?thesis by simp
    qed
    then show "\<forall>out r. snd (zoning_example data) = Inr out \<and> r \<in> set out
                      \<and> RoomCluster r = Some k
                     \<longrightarrow> RoomClusterUsage r = None \<and> Zone r = []"
      by blast
    show "[] \<notin> set catalogue
            \<longrightarrow> (\<exists>e. snd (import_building_from_excel catalogue data) = Inl e)"
    proof
      assume cat: "[] \<notin> set catalogue"
      show "\<exists>e. snd (import_building_from_excel catalogue data) = Inl e"
      proof (cases "snd (zoning_example data)")
        case (Inl e)
        from import_building_error[OF this] show ?thesis by blast
      next
        case (Inr out)
        from assms(2) have "Some k \<in> set (map RoomCluster ?d2)"
          by (force simp: group_keys_set)
        then have "Some k \<in> set (map RoomCluster out)"
          using zoning_example_out_clusters[OF Inr] by simp
        then obtain r where r: "r \<in> set out" and rk: "RoomCluster r = Some k" by force
        from blank[OF Inr r rk] have "Zone r = []" by simp
        from blank_zone_fails[OF Inr r this cat] show ?thesis .
      qed
    qed
  qed
  from c1 c2 c3 c4 show ?thesis by blast
qed

theorem C1_cluster_main_usage_witness:
  "distinct (map idx no_usage_table)
   \<and> ''R2'' \<in> set (group_keys RoomCluster id (add_room_cluster (reclassify no_usage_table)))
   \<and> main_usages ''R2'' (add_room_cluster (reclassify no_usage_table)) = []
   \<and> [] \<notin> set sample_catalogue
   \<and> count_list (fst (zoning_example no_usage_table)) (ClusterMainUsageCount ''R2'' [3]) = 1
   \<and> list_all (\<lambda>r. RoomCluster r = Some ''R2'' \<longrightarrow> RoomClusterUsage r = None)
       (fst (main_usage_of_clusters (add_room_cluster (reclassify no_usage_table))))
   \<and> list_ex (\<lambda>r. RoomCluster r = Some ''R2'')
       (fst (main_usage_of_clusters (add_room_cluster (reclassify no_usage_table))))
   \<and> (\<exists>out. snd (zoning_example no_usage_table) = Inr out
         \<and> list_ex (\<lambda>r. RoomCluster r = Some ''R2'') out
         \<and> list_all (\<lambda>r. RoomCluster r = Some ''R2''
                          \<longrightarrow> RoomClusterUsage r = None \<and> Zone r = []) out)
   \<and> (\<exists>e. snd (import_building_from_excel sample_catalogue no_usage_table) = Inl e)
   \<and> import_building_from_excel sample_catalogue no_usage_table
       = ([ClusterMainUsageCount ''R2'' [3]], Inl (ConfigurationError []))
   \<and> distinct (map idx only_no_usage_table)
   \<and> ''R1'' \<in> set (group_keys RoomCluster id (add_room_cluster (reclassify only_no_usage_table)))
   \<and> zoning_example only_no_usage_table
       = ([ClusterMainUsageCount ''R1'' [2]], Inl (KeyError ''RoomClusterUsage''))
   \<and> count_list (fst (zoning_example only_no_usage_table)) (ClusterMainUsageCount ''R1'' [2]) = 1
   \<and> list_all (\<lambda>r. RoomCluster r = Some ''R1'' \<longrightarrow> RoomClusterUsage r = None)
       (fst (main_usage_of_clusters (add_room_cluster (reclassify only_no_usage_table))))"
proof -
  let ?e2 = "add_room_cluster (reclassify only_no_usage_table)"
  let ?e3 = "fst (main_usage_of_clusters ?e2)"
  have d': "distinct (map idx only_no_usage_table)"
    by (simp add: only_no_usage_table_def)
  have k': "''R1'' \<in> set (group_keys RoomCluster id ?e2)"
    by (simp add: zoning_eval only_no_usage_table_def)
  have e': "main_usages ''R1'' ?e2 = []"
    by (simp add: zoning_eval main_usages_def only_no_usage_table_def)
  have l': "cluster_labels ''R1'' ?e2 = [2]"
    by (simp add: zoning_eval cluster_labels_def only_no_usage_table_def)
  have run': "zoning_example only_no_usage_table
       = ([ClusterMainUsageCount ''R1'' [2]], Inl (KeyError ''RoomClusterUsage''))"
    by (simp add: zoning_eval only_no_usage_table_def)
  note main' = C1_cluster_main_usage[OF d' k', of sample_catalogue]
  from main' e' l'
  have c': "count_list (fst (zoning_example only_no_usage_table)) (ClusterMainUsageCount ''R1'' [2]) = 1"
    by simp
  from main' e' have "\<forall>r\<in>set ?e3. RoomCluster r = Some ''R1'' \<longrightarrow> RoomClusterUsage r = None"
    by blast
  then have u': "list_all (\<lambda>r. RoomCluster r = Some ''R1'' \<longrightarrow> RoomClusterUsage r = None) ?e3"
    by (simp add: list_all_iff)
  let ?d2 = "add_room_cluster (reclassify no_usage_table)"
  let ?d3 = "fst (main_usage_of_clusters ?d2)"
  have d: "distinct (map idx no_usage_table)"
    by (simp add: no_usage_table_def blank_row_def)
  have k: "''R2'' \<in> set (group_keys RoomCluster id ?d2)"
    by (simp add: zoning_eval no_usage_table_def)
  have e: "main_usages ''R2'' ?d2 = []"
    by (simp add: zoning_eval main_usages_def no_usage_table_def)
  have l: "cluster_labels ''R2'' ?d2 = [3]"
    by (simp add: zoning_eval cluster_labels_def no_usage_table_def)
  have cat: "[] \<notin> set sample_catalogue"
    by (simp add: sample_catalogue_def)
  obtain out where out: "snd (zoning_example no_usage_table) = Inr out"
    by (simp add: zoning_eval no_usage_table_def)
  have run: "import_building_from_excel sample_catalogue no_usage_table
       = ([ClusterMainUsageCount ''R2'' [3]], Inl (ConfigurationError []))"
    by (simp add: zoning_eval import_eval no_usage_table_def)
  note main = C1_cluster_main_usage[OF d k, of sample_catalogue]
  from main e l have c: "count_list (fst (zoning_example no_usage_table)) (ClusterMainUsageCount ''R2'' [3]) = 1"
    by simp
  from main e have "\<forall>r\<in>set ?d3. RoomCluster r = Some ''R2'' \<longrightarrow> RoomClusterUsage r = None"
    by blast
  then have u3: "list_all (\<lambda>r. RoomCluster r = Some ''R2'' \<longrightarrow> RoomClusterUsage r = None) ?d3"
    by (simp add: list_all_iff)
  from main e out
  have "\<forall>r\<in>set out. RoomCluster r = Some ''R2'' \<longrightarrow> RoomClusterUsage r = None \<and> Zone r = []"
    by blast
  then have u: "list_all (\<lambda>r. RoomCluster r = Some ''R2''
                          \<longrightarrow> RoomClusterUsage r = None \<and> Zone r = []) out"
    by (simp add: list_all_iff)
  from main e cat
  have ab: "\<exists>e. snd (import_building_from_excel sample_catalogue no_usage_table) = Inl e"
    by blast
  from k have m2: "Some ''R2'' \<in> set (map RoomCluster ?d2)"
    by (force simp: group_keys_set)
  then have "Some ''R2'' \<in> set (map RoomCluster out)"
    using zoning_example_out_clusters[OF out] by simp
  then have ex: "list_ex (\<lambda>r. RoomCluster r = Some ''R2'') out"
    by (force simp: list_ex_iff)
  have "map RoomCluster ?d3 = map RoomCluster ?d2"
    unfolding clusters_frame by (simp add: comp_def)
  with m2 have "Some ''R2'' \<in> set (map RoomCluster ?d3)" by simp
  then have ex3: "list_ex (\<lambda>r. RoomCluster r = Some ''R2'') ?d3"
    by (force simp: list_ex_iff)
  from out ex u have o: "\<exists>out. snd (zoning_example no_usage_table) = Inr out
         \<and> list_ex (\<lambda>r. RoomCluster r = Some ''R2'') out
         \<and> list_all (\<lambda>r. RoomCluster r = Some ''R2''
                          \<longrightarrow> RoomClusterUsage r = None \<and> Zone r = []) out"
    by blast
  from d k e cat c u3 ex3 o ab run d' k' run' c' u' show ?thesis by (intro conjI)
qed

text \<open>
  C1 as stated fails. In \<open>two_usages_table\<close> the cluster R1 has two records with a
  usage, "Office" first and "WC" second: the first match is "Office", and both records
  end with "WC". In \<open>shared_label_table\<close> the rows of the rooms R1 and R2 carry the
  same index label, and the record of R1, whose only match is "Office", ends with the
  usage "WC" of R2.
\<close>

theorem C1_counterexample:
  "first_main_usage ''R1'' (add_room_cluster (reclassify two_usages_table)) = Some ''Office''
   \<and> map RoomCluster (add_room_cluster (reclassify two_usages_table)) = [Some ''R1'', Some ''R1'']
   \<and> map_sum id (map RoomClusterUsage) (snd (zoning_example two_usages_table))
       = Inr [Some ''WC'', Some ''WC'']
   \<and> main_usages ''R1'' (add_room_cluster (reclassify shared_label_table)) = [''Office'']
   \<and> map_sum id (map (\<lambda>r. (RoomCluster r, RoomClusterUsage r)))
         (snd (zoning_example shared_label_table))
       = Inr [(Some ''R1'', Some ''WC''), (Some ''R2'', Some ''WC'')]"
  by (simp add: zoning_eval first_main_usage_def main_usages_def two_usages_table_def
        shared_label_table_def)

subsection \<open>Groups of a zone and the elements built from them\<close>

lemma pair_key_Some:
  "pair_key c s = Some k \<longleftrightarrow> c = fst k \<and> s = Some (snd k) \<and> c \<noteq> NaN"
  by (cases k) (auto simp: pair_key_def split: cell.splits option.splits)

lemma for_groups_elements:
  "set (fst (for_groups body gs)) = (\<Union>g\<in>set gs. set (fst (body (snd g))))"
  by (simp add: for_groups_def)

lemma for_groups_warnings:
  "set (snd (for_groups body gs)) = (\<Union>g\<in>set gs. set (snd (body (snd g))))"
  by (simp add: for_groups_def)

lemma filter_concat_groups:
  assumes "distinct (map fst gs)" and "(k, g) \<in> set gs"
    and "\<And>k' g' e. (k', g') \<in> set gs \<Longrightarrow> e \<in> set (F g') \<Longrightarrow> (P e \<longleftrightarrow> k' = k)"
  shows "filter P (concat (map (\<lambda>kg. F (snd kg)) gs)) = F g"
  using assms
proof (induction gs)
  case Nil
  then show ?case by simp
next
  case (Cons a gs)
  obtain k' g' where a: "a = (k', g')" by (cases a)
  show ?case
  proof (cases "k' = k")
    case True
    with Cons.prems(1,2) a have g: "g' = g" and notin: "k \<notin> fst ` set gs"
      by (auto simp: image_iff)
    have all: "filter P (F g) = F g"
      using Cons.prems(3)[of k g] a True g by (intro filter_True) auto
    have "filter P (concat (map (\<lambda>kg. F (snd kg)) gs)) = []"
    proof -
      have "\<not> P e" if "e \<in> set (concat (map (\<lambda>kg. F (snd kg)) gs))" for e
      proof -
        from that obtain k2 g2 where m: "(k2, g2) \<in> set gs" and e: "e \<in> set (F g2)"
          by auto
        from m notin have "k2 \<noteq> k" by force
        with Cons.prems(3)[of k2 g2 e] m e show ?thesis by simp
      qed
      then show ?thesis by (simp add: filter_empty_conv)
    qed
    with all a g show ?thesis by simp
  next
    case False
    with Cons.prems a have mem: "(k, g) \<in> set gs" and dist: "distinct (map fst gs)"
      by auto
    have none: "filter P (F g') = []"
      using Cons.prems(3)[of k' g'] a False by (simp add: filter_empty_conv)
    have "filter P (concat (map (\<lambda>kg. F (snd kg)) gs)) = F g"
      using Cons.prems(3) by (intro Cons.IH[OF dist mem]) auto
    with none a show ?thesis by simp
  qed
qed

lemma outer_wall_group_cases:
  assumes "(k, g) \<in> set (groupby outer_wall_key pair_rank zone)"
  shows "outer_wall_group g =
     (if is_str (fst k)
      then ([], [OuterWallOrientationNotNumeric (Zone (iloc0 g)) (fst k) (index_labels g)])
      else if nansum (map (\<lambda>r. OuterWallArea (base r)) (filter (\<lambda>r. outer_wall_key r = Some k) zone)) > 0
      then ([\<lparr>el_kind = OuterWall,
               area = nansum (map (\<lambda>r. OuterWallArea (base r)) (filter (\<lambda>r. outer_wall_key r = Some k) zone)),
               tilt = Some 90, orientation = Some (fst k), construction = Some (snd k)\<rparr>], [])
      else ([], []))"
proof -
  from groupby_iloc0[OF assms]
  have "OuterWallOrientation (base (iloc0 g)) = fst k" "OuterWallConstruction (base (iloc0 g)) = Some (snd k)"
    by (simp_all add: outer_wall_key_def pair_key_Some)
  then show ?thesis
    by (simp add: outer_wall_group_def groupby_rows(1)[OF assms])
qed

lemma window_group_cases:
  assumes "(k, g) \<in> set (groupby window_key pair_rank zone)"
  shows "window_group g =
     (if is_str (fst k)
      then ([], [WindowOrientationNotNumeric (Zone (iloc0 g)) (fst k) (index_labels g)])
      else if nansum (map (\<lambda>r. WindowArea (base r)) (filter (\<lambda>r. window_key r = Some k) zone)) > 0
      then ([\<lparr>el_kind = Window,
               area = nansum (map (\<lambda>r. WindowArea (base r)) (filter (\<lambda>r. window_key r = Some k) zone)),
               tilt = Some 90, orientation = Some (fst k), construction = Some (snd k)\<rparr>], [])
      else ([], []))"
proof -
  from groupby_iloc0[OF assms]
  have "WindowOrientation (base (iloc0 g)) = fst k" "WindowConstruction (base (iloc0 g)) = Some (snd k)"
    by (simp_all add: window_key_def pair_key_Some)
  then show ?thesis
    by (simp add: window_group_def groupby_rows(1)[OF assms])
qed

lemma floor_group_cases:
  assumes "(k, g) \<in> set (groupby floor_key pair_rank zone)"
  shows "floor_group g =
     (if nansum (map (\<lambda>r. NetArea (base r)) (filter (\<lambda>r. floor_key r = Some k) zone)) \<noteq> 0
      then (if fst k = Num 1
            then ([\<lparr>el_kind = GroundFloor,
                     area = nansum (map (\<lambda>r. NetArea (base r)) (filter (\<lambda>r. floor_key r = Some k) zone)),
                     tilt = Some 0, orientation = Some (Num (- 2)), construction = Some (snd k)\<rparr>], [])
            else if fst k = Num 0
            then ([\<lparr>el_kind = Floor,
                     area = nansum (map (\<lambda>r. NetArea (base r)) (filter (\<lambda>r. floor_key r = Some k) zone)) / 2,
                     tilt = Some 0, orientation = Some (Num (- 2)), construction = Some (snd k)\<rparr>], [])
            else ([], [IsGroundFloorNotZeroOrOne]))
      else ([], [NoFloorNorGroundFloor (Zone (iloc0 g)) (fst k) (Some (snd k))]))"
proof -
  from groupby_iloc0[OF assms]
  have "IsGroundFloor (base (iloc0 g)) = fst k" "FloorConstruction (base (iloc0 g)) = Some (snd k)"
    by (simp_all add: floor_key_def pair_key_Some)
  then show ?thesis
    by (simp add: floor_group_def groupby_rows(1)[OF assms])
qed

lemma ceiling_group_cases:
  assumes "(k, g) \<in> set (groupby ceiling_key pair_rank zone)"
  shows "ceiling_group g =
     (if nansum (map (\<lambda>r. NetArea (base r)) (filter (\<lambda>r. ceiling_key r = Some k) zone)) \<noteq> 0
      then (if fst k = Num 1
            then ([\<lparr>el_kind = Rooftop,
                     area = nansum (map (\<lambda>r. NetArea (base r)) (filter (\<lambda>r. ceiling_key r = Some k) zone)),
                     tilt = Some 0, orientation = Some (Num (- 1)), construction = Some (snd k)\<rparr>], [])
            else if fst k = Num 0
            then ([\<lparr>el_kind = Ceiling,
                     area = nansum (map (\<lambda>r. NetArea (base r)) (filter (\<lambda>r. ceiling_key r = Some k) zone)) / 2,
                     tilt = Some 0, orientation = Some (Num (- 1)), construction = Some (snd k)\<rparr>], [])
            else ([], [IsRooftopNotZeroOrOne]))
      else ([], [NoCeilingNorRooftop (Zone (iloc0 g)) (fst k) (Some (snd k))]))"
proof -
  from groupby_iloc0[OF assms]
  have "IsRooftop (base (iloc0 g)) = fst k" "CeilingConstruction (base (iloc0 g)) = Some (snd k)"
    by (simp_all add: ceiling_key_def pair_key_Some)
  then show ?thesis
    by (simp add: ceiling_group_def groupby_rows(1)[OF assms])
qed

lemma inner_wall_group_cases:
  assumes "(k, g) \<in> set (groupby inner_wall_key id zone)"
  shows "inner_wall_group g =
     (if nansum (map (\<lambda>r. InnerWallArea (base r)) (filter (\<lambda>r. inner_wall_key r = Some k) zone)) \<noteq> 0
      then ([\<lparr>el_kind = InnerWall,
               area = nansum (map (\<lambda>r. InnerWallArea (base r)) (filter (\<lambda>r. inner_wall_key r = Some k) zone)) / 2,
               tilt = None, orientation = None, construction = Some k\<rparr>], [])
      else ([], [NoInnerWalls (Zone (iloc0 g)) (Some k)]))"
proof -
  from groupby_iloc0[OF assms]
  have "InnerWallConstruction (base (iloc0 g)) = Some k"
    by (simp_all add: inner_wall_key_def)
  then show ?thesis
    by (simp add: inner_wall_group_def groupby_rows(1)[OF assms])
qed

subsection \<open>The sample zone, evaluated\<close>

lemma sample_zone_built:
  "build_zone ''Z'' sample_zone =
     (\<lparr>tz_name = ''Z'', tz_area = 16, tz_volume = 48,
       tz_elements =
         [\<lparr>el_kind = OuterWall, area = 12, tilt = Some 90,
            orientation = Some (Num 90), construction = Some ''Brick''\<rparr>,
          \<lparr>el_kind = Floor, area = 5, tilt = Some 0,
            orientation = Some (Num (- 2)), construction = Some ''Slab''\<rparr>,
          \<lparr>el_kind = Ceiling, area = 3, tilt = Some 0,
            orientation = Some (Num (- 1)), construction = Some ''Deck''\<rparr>,
          \<lparr>el_kind = Rooftop, area = 10, tilt = Some 0,
            orientation = Some (Num (- 1)), construction = Some ''Roof''\<rparr>,
          \<lparr>el_kind = InnerWall, area = 3, tilt = None, orientation = None,
            construction = Some ''Light''\<rparr>]\<rparr>,
      [OuterWallOrientationNotNumeric ''Meeting, Conference, seminar'' (Str ''N'') [3],
       IsGroundFloorNotZeroOrOne])"
  by (simp add: import_eval zoning_eval sample_zone_def)

lemma sample_zone_keys:
  "group_keys outer_wall_key pair_rank sample_zone = [(Num 90, ''Brick''), (Str ''N'', ''Brick'')]"
  "group_keys window_key pair_rank sample_zone = [(Num 90, ''Glass'')]"
  "group_keys floor_key pair_rank sample_zone = [(Num 0, ''Slab''), (Num 2, ''Slab'')]"
  "group_keys ceiling_key pair_rank sample_zone = [(Num 0, ''Deck''), (Num 1, ''Roof'')]"
  "group_keys inner_wall_key id sample_zone = [''Light'']"
  by (simp_all add: import_eval zoning_eval sample_zone_def)

lemma sample_zone_sums:
  "group_sum OuterWallArea outer_wall_key (Num 90, ''Brick'') sample_zone = 12"
  "group_sum WindowArea window_key (Num 90, ''Glass'') sample_zone = 0"
  "group_sum NetArea floor_key (Num 0, ''Slab'') sample_zone = 10"
  "group_sum NetArea floor_key (Num 2, ''Slab'') sample_zone = 6"
  "group_sum NetArea ceiling_key (Num 0, ''Deck'') sample_zone = 6"
  "group_sum NetArea ceiling_key (Num 1, ''Roof'') sample_zone = 10"
  "group_sum InnerWallArea inner_wall_key ''Light'' sample_zone = 6"
  by (simp_all add: group_sum_def group_rows_def import_eval zoning_eval sample_zone_def)

subsection \<open>The elements of a zone, by kind\<close>

lemma outer_walls_elements:
  assumes "e \<in> set (fst (outer_walls zone))"
  shows "\<exists>k\<in>set (group_keys outer_wall_key pair_rank zone).
           \<not> is_str (fst k) \<and> group_sum OuterWallArea outer_wall_key k zone > 0
           \<and> e = \<lparr>el_kind = OuterWall, area = group_sum OuterWallArea outer_wall_key k zone,
                   tilt = Some 90, orientation = Some (fst k), construction = Some (snd k)\<rparr>"
proof -
  from assms obtain k g where g: "(k, g) \<in> set (groupby outer_wall_key pair_rank zone)"
    and e: "e \<in> set (fst (outer_wall_group g))"
    by (auto simp: outer_walls_def for_groups_elements)
  from e show ?thesis
    unfolding outer_wall_group_cases[OF g] using groupby_rows(2)[OF g]
    by (auto simp: group_sum_def group_rows_def split: if_splits)
qed

lemma windows_elements:
  assumes "e \<in> set (fst (windows zone))"
  shows "\<exists>k\<in>set (group_keys window_key pair_rank zone).
           \<not> is_str (fst k) \<and> group_sum WindowArea window_key k zone > 0
           \<and> e = \<lparr>el_kind = Window, area = group_sum WindowArea window_key k zone,
                   tilt = Some 90, orientation = Some (fst k), construction = Some (snd k)\<rparr>"
proof -
  from assms obtain k g where g: "(k, g) \<in> set (groupby window_key pair_rank zone)"
    and e: "e \<in> set (fst (window_group g))"
    by (auto simp: windows_def for_groups_elements)
  from e show ?thesis
    unfolding window_group_cases[OF g] using groupby_rows(2)[OF g]
    by (auto simp: group_sum_def group_rows_def split: if_splits)
qed

lemma floors_elements:
  assumes "e \<in> set (fst (floors zone))"
  shows "\<exists>k\<in>set (group_keys floor_key pair_rank zone).
           group_sum NetArea floor_key k zone \<noteq> 0
           \<and> (fst k = Num 1
                \<and> e = \<lparr>el_kind = GroundFloor, area = group_sum NetArea floor_key k zone,
                        tilt = Some 0, orientation = Some (Num (- 2)), construction = Some (snd k)\<rparr>
              \<or> fst k = Num 0
                \<and> e = \<lparr>el_kind = Floor, area = group_sum NetArea floor_key k zone / 2,
                        tilt = Some 0, orientation = Some (Num (- 2)), construction = Some (snd k)\<rparr>)"
proof -
  from assms obtain k g where g: "(k, g) \<in> set (groupby floor_key pair_rank zone)"
    and e: "e \<in> set (fst (floor_group g))"
    by (auto simp: floors_def for_groups_elements)
  from e show ?thesis
    unfolding floor_group_cases[OF g] using groupby_rows(2)[OF g]
    by (auto simp: group_sum_def group_rows_def split: if_splits)
qed

lemma ceilings_elements:
  assumes "e \<in> set (fst (ceilings zone))"
  shows "\<exists>k\<in>set (group_keys ceiling_key pair_rank zone).
           group_sum NetArea ceiling_key k zone \<noteq> 0
           \<and> (fst k = Num 1
                \<and> e = \<lparr>el_kind = Rooftop, area = group_sum NetArea ceiling_key k zone,
                        tilt = Some 0, orientation = Some (Num (- 1)), construction = Some (snd k)\<rparr>
              \<or> fst k = Num 0
                \<and> e = \<lparr>el_kind = Ceiling, area = group_sum NetArea ceiling_key k zone / 2,
                        tilt = Some 0, orientation = Some (Num (- 1)), construction = Some (snd k)\<rparr>)"
proof -
  from assms obtain k g where g: "(k, g) \<in> set (groupby ceiling_key pair_rank zone)"
    and e: "e \<in> set (fst (ceiling_group g))"
    by (auto simp: ceilings_def for_groups_elements)
  from e show ?thesis
    unfolding ceiling_group_cases[OF g] using groupby_rows(2)[OF g]
    by (auto simp: group_sum_def group_rows_def split: if_splits)
qed

lemma inner_walls_elements:
  assumes "e \<in> set (fst (inner_walls zone))"
  shows "\<exists>k\<in>set (group_keys inner_wall_key id zone).
           group_sum InnerWallArea inner_wall_key k zone \<noteq> 0
           \<and> e = \<lparr>el_kind = InnerWall, area = group_sum InnerWallArea inner_wall_key k zone / 2,
                   tilt = None, orientation = None, construction = Some k\<rparr>"
proof -
  from assms obtain k g where g: "(k, g) \<in> set (groupby inner_wall_key id zone)"
    and e: "e \<in> set (fst (inner_wall_group g))"
    by (auto simp: inner_walls_def for_groups_elements)
  from e show ?thesis
    unfolding inner_wall_group_cases[OF g] using groupby_rows(2)[OF g]
    by (auto simp: group_sum_def group_rows_def split: if_splits)
qed

lemma build_zone_elements:
  "set (tz_elements (fst (build_zone name zone))) =
     set (fst (outer_walls zone)) \<union> set (fst (windows zone)) \<union> set (fst (floors zone))
       \<union> set (fst (ceilings zone)) \<union> set (fst (inner_walls zone))"
  by (auto simp: build_zone_def)

lemma pair_group_rows:
  "group_rows floor_key (f, c) zone =
     filter (\<lambda>r. IsGroundFloor (base r) = f \<and> FloorConstruction (base r) = Some c \<and> f \<noteq> NaN) zone"
  "group_rows ceiling_key (f, c) zone =
     filter (\<lambda>r. IsRooftop (base r) = f \<and> CeilingConstruction (base r) = Some c \<and> f \<noteq> NaN) zone"
  "group_rows inner_wall_key c zone = filter (\<lambda>r. InnerWallConstruction (base r) = Some c) zone"
  by (simp_all add: group_rows_def floor_key_def ceiling_key_def inner_wall_key_def pair_key_Some
        cong: conj_cong)

text \<open>
  C2. Every InnerWall, Floor and Ceiling element of a zone has exactly half of the
  summed area of the records that contribute to it (the inner-wall area of the zone's
  records with that inner-wall construction; the net area of the zone's records with
  flag 0 and that floor or ceiling construction), while a GroundFloor or Rooftop
  element (flag 1) has the full sum.
\<close>

theorem C2_shared_surfaces_halved:
  assumes "e \<in> set (tz_elements (fst (build_zone name zone)))"
  shows "(el_kind e = InnerWall \<longrightarrow>
            (\<exists>c. construction e = Some c
               \<and> area e = nansum (map (\<lambda>r. InnerWallArea (base r))
                            (filter (\<lambda>r. InnerWallConstruction (base r) = Some c) zone)) / 2))
       \<and> (el_kind e = Floor \<longrightarrow>
            (\<exists>c. construction e = Some c
               \<and> area e = nansum (map (\<lambda>r. NetArea (base r))
                            (filter (\<lambda>r. IsGroundFloor (base r) = Num 0
                                        \<and> FloorConstruction (base r) = Some c) zone)) / 2))
       \<and> (el_kind e = Ceiling \<longrightarrow>
            (\<exists>c. construction e = Some c
               \<and> area e = nansum (map (\<lambda>r. NetArea (base r))
                            (filter (\<lambda>r. IsRooftop (base r) = Num 0
                                        \<and> CeilingConstruction (base r) = Some c) zone)) / 2))
       \<and> (el_kind e = GroundFloor \<longrightarrow>
            (\<exists>c. construction e = Some c
               \<and> area e = nansum (map (\<lambda>r. NetArea (base r))
                            (filter (\<lambda>r. IsGroundFloor (base r) = Num 1
                                        \<and> FloorConstruction (base r) = Some c) zone))))
       \<and> (el_kind e = Rooftop \<longrightarrow>
            (\<exists>c. construction e = Some c
               \<and> area e = nansum (map (\<lambda>r. NetArea (base r))
                            (filter (\<lambda>r. IsRooftop (base r) = Num 1
                                        \<and> CeilingConstruction (base r) = Some c) zone))))"
proof -
  from assms consider
      (ow) "e \<in> set (fst (outer_walls zone))"
    | (wi) "e \<in> set (fst (windows zone))"
    | (fl) "e \<in> set (fst (floors zone))"
    | (ce) "e \<in> set (fst (ceilings zone))"
    | (iw) "e \<in> set (fst (inner_walls zone))"
    by (auto simp: build_zone_elements)
  then show ?thesis
  proof cases
    case ow
    from outer_walls_elements[OF this] show ?thesis by auto
  next
    case wi
    from windows_elements[OF this] show ?thesis by auto
  next
    case fl
    from floors_elements[OF this] obtain f c where
      "fst (f, c) = Num 1
         \<and> e = \<lparr>el_kind = GroundFloor, area = group_sum NetArea floor_key (f, c) zone,
                 tilt = Some 0, orientation = Some (Num (- 2)), construction = Some (snd (f, c))\<rparr>
       \<or> fst (f, c) = Num 0
         \<and> e = \<lparr>el_kind = Floor, area = group_sum NetArea floor_key (f, c) zone / 2,
                 tilt = Some 0, orientation = Some (Num (- 2)), construction = Some (snd (f, c))\<rparr>"
      by (metis prod.collapse)
    then show ?thesis
      by (auto simp: group_sum_def pair_group_rows)
  next
    case ce
    from ceilings_elements[OF this] obtain f c where
      "fst (f, c) = Num 1
         \<and> e = \<lparr>el_kind = Rooftop, area = group_sum NetArea ceiling_key (f, c) zone,
                 tilt = Some 0, orientation = Some (Num (- 1)), construction = Some (snd (f, c))\<rparr>
       \<or> fst (f, c) = Num 0
         \<and> e = \<lparr>el_kind = Ceiling, area = group_sum NetArea ceiling_key (f, c) zone / 2,
                 tilt = Some 0, orientation = Some (Num (- 1)), construction = Some (snd (f, c))\<rparr>"
      by (metis prod.collapse)
    then show ?thesis
      by (auto simp: group_sum_def pair_group_rows)
  next
    case iw
    from inner_walls_elements[OF this] show ?thesis
      by (auto simp: group_sum_def pair_group_rows)
  qed
qed

theorem C2_shared_surfaces_halved_witness:
  "\<lparr>el_kind = InnerWall, area = 3, tilt = None, orientation = None,
     construction = Some ''Light''\<rparr> \<in> set (tz_elements (fst (build_zone ''Z'' sample_zone)))
   \<and> (\<exists>c. Some ''Light'' = Some c
         \<and> (3::real) = nansum (map (\<lambda>r. InnerWallArea (base r))
                  (filter (\<lambda>r. InnerWallConstruction (base r) = Some c) sample_zone)) / 2)
   \<and> \<lparr>el_kind = Floor, area = 5, tilt = Some 0, orientation = Some (Num (- 2)),
       construction = Some ''Slab''\<rparr> \<in> set (tz_elements (fst (build_zone ''Z'' sample_zone)))
   \<and> (\<exists>c. Some ''Slab'' = Some c
         \<and> (5::real) = nansum (map (\<lambda>r. NetArea (base r))
                  (filter (\<lambda>r. IsGroundFloor (base r) = Num 0
                              \<and> FloorConstruction (base r) = Some c) sample_zone)) / 2)
   \<and> \<lparr>el_kind = Rooftop, area = 10, tilt = Some 0, orientation = Some (Num (- 1)),
       construction = Some ''Roof''\<rparr> \<in> set (tz_elements (fst (build_zone ''Z'' sample_zone)))
   \<and> (\<exists>c. Some ''Roof'' = Some c
         \<and> (10::real) = nansum (map (\<lambda>r. NetArea (base r))
                  (filter (\<lambda>r. IsRooftop (base r) = Num 1
                              \<and> CeilingConstruction (base r) = Some c) sample_zone)))"
proof -
  let ?iw = "\<lparr>el_kind = InnerWall, area = 3, tilt = None, orientation = None,
               construction = Some ''Light''\<rparr>"
  let ?fl = "\<lparr>el_kind = Floor, area = 5, tilt = Some 0, orientation = Some (Num (- 2)),
               construction = Some ''Slab''\<rparr>"
  let ?rt = "\<lparr>el_kind = Rooftop, area = 10, tilt = Some 0, orientation = Some (Num (- 1)),
               construction = Some ''Roof''\<rparr>"
  have iw: "?iw \<in> set (tz_elements (fst (build_zone ''Z'' sample_zone)))"
    by (simp add: sample_zone_built)
  have fl: "?fl \<in> set (tz_elements (fst (build_zone ''Z'' sample_zone)))"
    by (simp add: sample_zone_built)
  have rt: "?rt \<in> set (tz_elements (fst (build_zone ''Z'' sample_zone)))"
    by (simp add: sample_zone_built)
  from C2_shared_surfaces_halved[OF iw] C2_shared_surfaces_halved[OF fl]
    C2_shared_surfaces_halved[OF rt] iw fl rt
  show ?thesis by simp
qed

subsection \<open>One element per group\<close>

lemma outer_walls_filter:
  assumes "k \<in> set (group_keys outer_wall_key pair_rank zone)"
  shows "filter (\<lambda>e. orientation e = Some (fst k) \<and> construction e = Some (snd k))
           (fst (outer_walls zone)) =
         (if \<not> is_str (fst k) \<and> group_sum OuterWallArea outer_wall_key k zone > 0
          then [\<lparr>el_kind = OuterWall, area = group_sum OuterWallArea outer_wall_key k zone,
                  tilt = Some 90, orientation = Some (fst k), construction = Some (snd k)\<rparr>]
          else [])"
proof -
  let ?gs = "groupby outer_wall_key pair_rank zone"
  from groupby_member[OF assms] obtain g where g: "(k, g) \<in> set ?gs" by blast
  have dist: "distinct (map fst ?gs)"
    by (simp add: groupby_fst group_keys_distinct)
  have "filter (\<lambda>e. orientation e = Some (fst k) \<and> construction e = Some (snd k))
          (concat (map (\<lambda>kg. fst (outer_wall_group (snd kg))) ?gs)) = fst (outer_wall_group g)"
  proof (rule filter_concat_groups[OF dist g])
    fix k' g' e
    assume m: "(k', g') \<in> set ?gs" and e: "e \<in> set (fst (outer_wall_group g'))"
    from e show "(orientation e = Some (fst k) \<and> construction e = Some (snd k)) = (k' = k)"
      unfolding outer_wall_group_cases[OF m]
      by (auto simp: prod_eq_iff split: if_splits)
  qed
  then show ?thesis
    unfolding outer_wall_group_cases[OF g]
    by (simp add: outer_walls_def for_groups_def group_sum_def group_rows_def)
qed

lemma windows_filter:
  assumes "k \<in> set (group_keys window_key pair_rank zone)"
  shows "filter (\<lambda>e. orientation e = Some (fst k) \<and> construction e = Some (snd k))
           (fst (windows zone)) =
         (if \<not> is_str (fst k) \<and> group_sum WindowArea window_key k zone > 0
          then [\<lparr>el_kind = Window, area = group_sum WindowArea window_key k zone,
                  tilt = Some 90, orientation = Some (fst k), construction = Some (snd k)\<rparr>]
          else [])"
proof -
  let ?gs = "groupby window_key pair_rank zone"
  from groupby_member[OF assms] obtain g where g: "(k, g) \<in> set ?gs" by blast
  have dist: "distinct (map fst ?gs)"
    by (simp add: groupby_fst group_keys_distinct)
  have "filter (\<lambda>e. orientation e = Some (fst k) \<and> construction e = Some (snd k))
          (concat (map (\<lambda>kg. fst (window_group (snd kg))) ?gs)) = fst (window_group g)"
  proof (rule filter_concat_groups[OF dist g])
    fix k' g' e
    assume m: "(k', g') \<in> set ?gs" and e: "e \<in> set (fst (window_group g'))"
    from e show "(orientation e = Some (fst k) \<and> construction e = Some (snd k)) = (k' = k)"
      unfolding window_group_cases[OF m]
      by (auto simp: prod_eq_iff split: if_splits)
  qed
  then show ?thesis
    unfolding window_group_cases[OF g]
    by (simp add: windows_def for_groups_def group_sum_def group_rows_def)
qed

lemma outer_walls_warning:
  assumes "k \<in> set (group_keys outer_wall_key pair_rank zone)" and "is_str (fst k)"
  shows "\<exists>z l. OuterWallOrientationNotNumeric z (fst k) l \<in> set (snd (outer_walls zone))"
proof -
  from groupby_member[OF assms(1)] obtain g where
    g: "(k, g) \<in> set (groupby outer_wall_key pair_rank zone)" by blast
  have "OuterWallOrientationNotNumeric (Zone (iloc0 g)) (fst k) (index_labels g)
          \<in> set (snd (outer_wall_group g))"
    unfolding outer_wall_group_cases[OF g] using assms(2) by simp
  with g have "OuterWallOrientationNotNumeric (Zone (iloc0 g)) (fst k) (index_labels g)
          \<in> set (snd (outer_walls zone))"
    unfolding outer_walls_def for_groups_warnings by force
  then show ?thesis by blast
qed

lemma windows_warning:
  assumes "k \<in> set (group_keys window_key pair_rank zone)" and "is_str (fst k)"
  shows "\<exists>z l. WindowOrientationNotNumeric z (fst k) l \<in> set (snd (windows zone))"
proof -
  from groupby_member[OF assms(1)] obtain g where
    g: "(k, g) \<in> set (groupby window_key pair_rank zone)" by blast
  have "WindowOrientationNotNumeric (Zone (iloc0 g)) (fst k) (index_labels g)
          \<in> set (snd (window_group g))"
    unfolding window_group_cases[OF g] using assms(2) by simp
  with g have "WindowOrientationNotNumeric (Zone (iloc0 g)) (fst k) (index_labels g)
          \<in> set (snd (windows zone))"
    unfolding windows_def for_groups_warnings by force
  then show ?thesis by blast
qed

lemma build_zone_warnings:
  "set (snd (build_zone name zone)) =
     set (snd (outer_walls zone)) \<union> set (snd (windows zone)) \<union> set (snd (floors zone))
       \<union> set (snd (ceilings zone)) \<union> set (snd (inner_walls zone))"
  by (auto simp: build_zone_def)

lemma filter_kind_empty:
  assumes "\<And>e. e \<in> set es \<Longrightarrow> el_kind e \<noteq> kd"
  shows "filter (\<lambda>e. el_kind e = kd \<and> P e) es = []"
  using assms by (simp add: filter_empty_conv)

lemma filter_kind_all:
  assumes "\<And>e. e \<in> set es \<Longrightarrow> el_kind e = kd"
  shows "filter (\<lambda>e. el_kind e = kd \<and> P e) es = filter P es"
  using assms by (intro filter_cong) auto

lemma build_zone_outer_walls:
  "filter (\<lambda>e. el_kind e = OuterWall \<and> P e) (tz_elements (fst (build_zone name zone)))
     = filter P (fst (outer_walls zone))"
proof -
  have 1: "filter (\<lambda>e. el_kind e = OuterWall \<and> P e) (fst (outer_walls zone)) = filter P (fst (outer_walls zone))"
    by (rule filter_kind_all) (use outer_walls_elements in fastforce)
  have 2: "filter (\<lambda>e. el_kind e = OuterWall \<and> P e) (fst (windows zone)) = []"
    by (rule filter_kind_empty) (use windows_elements in fastforce)
  have 3: "filter (\<lambda>e. el_kind e = OuterWall \<and> P e) (fst (floors zone)) = []"
    by (rule filter_kind_empty) (use floors_elements in fastforce)
  have 4: "filter (\<lambda>e. el_kind e = OuterWall \<and> P e) (fst (ceilings zone)) = []"
    by (rule filter_kind_empty) (use ceilings_elements in fastforce)
  have 5: "filter (\<lambda>e. el_kind e = OuterWall \<and> P e) (fst (inner_walls zone)) = []"
    by (rule filter_kind_empty) (use inner_walls_elements in fastforce)
  show ?thesis
    by (simp add: build_zone_def 1 2 3 4 5)
qed

lemma build_zone_windows:
  "filter (\<lambda>e. el_kind e = Window \<and> P e) (tz_elements (fst (build_zone name zone)))
     = filter P (fst (windows zone))"
proof -
  have 1: "filter (\<lambda>e. el_kind e = Window \<and> P e) (fst (outer_walls zone)) = []"
    by (rule filter_kind_empty) (use outer_walls_elements in fastforce)
  have 2: "filter (\<lambda>e. el_kind e = Window \<and> P e) (fst (windows zone)) = filter P (fst (windows zone))"
    by (rule filter_kind_all) (use windows_elements in fastforce)
  have 3: "filter (\<lambda>e. el_kind e = Window \<and> P e) (fst (floors zone)) = []"
    by (rule filter_kind_empty) (use floors_elements in fastforce)
  have 4: "filter (\<lambda>e. el_kind e = Window \<and> P e) (fst (ceilings zone)) = []"
    by (rule filter_kind_empty) (use ceilings_elements in fastforce)
  have 5: "filter (\<lambda>e. el_kind e = Window \<and> P e) (fst (inner_walls zone)) = []"
    by (rule filter_kind_empty) (use inner_walls_elements in fastforce)
  show ?thesis
    by (simp add: build_zone_def 1 2 3 4 5)
qed

text \<open>
  The \<open>np.nansum\<close> of a group's area column, written out: the members of the group
  with key \<open>k\<close> are the rows with that orientation and construction, and a blank area
  counts as 0.
\<close>

lemma outer_wall_group_sum:
  assumes "k \<in> set (group_keys outer_wall_key pair_rank zone)"
  shows "group_sum OuterWallArea outer_wall_key k zone =
     sum_list (map (\<lambda>r. case OuterWallArea (base r) of None \<Rightarrow> 0 | Some a \<Rightarrow> a)
       (filter (\<lambda>r. OuterWallOrientation (base r) = fst k
                    \<and> OuterWallConstruction (base r) = Some (snd k)) zone))"
proof -
  from assms have "fst k \<noteq> NaN"
    by (auto simp: group_keys_set outer_wall_key_def pair_key_Some)
  then have "filter (\<lambda>r. outer_wall_key r = Some k) zone
      = filter (\<lambda>r. OuterWallOrientation (base r) = fst k
                    \<and> OuterWallConstruction (base r) = Some (snd k)) zone"
    by (intro filter_cong) (auto simp: outer_wall_key_def pair_key_Some)
  then show ?thesis
    by (simp add: group_sum_def group_rows_def nansum_def comp_def)
qed

lemma window_group_sum:
  assumes "k \<in> set (group_keys window_key pair_rank zone)"
  shows "group_sum WindowArea window_key k zone =
     sum_list (map (\<lambda>r. case WindowArea (base r) of None \<Rightarrow> 0 | Some a \<Rightarrow> a)
       (filter (\<lambda>r. WindowOrientation (base r) = fst k
                    \<and> WindowConstruction (base r) = Some (snd k)) zone))"
proof -
  from assms have "fst k \<noteq> NaN"
    by (auto simp: group_keys_set window_key_def pair_key_Some)
  then have "filter (\<lambda>r. window_key r = Some k) zone
      = filter (\<lambda>r. WindowOrientation (base r) = fst k
                    \<and> WindowConstruction (base r) = Some (snd k)) zone"
    by (intro filter_cong) (auto simp: window_key_def pair_key_Some)
  then show ?thesis
    by (simp add: group_sum_def group_rows_def nansum_def comp_def)
qed

lemma facade_zone_keys:
  "group_keys outer_wall_key pair_rank facade_zone = [(Num 90, ''Brick''), (Str ''N'', ''Brick'')]"
  "group_keys window_key pair_rank facade_zone
     = [(Num 90, ''Glass''), (Num 180, ''Glass''), (Num 270, ''Glass'')]"
  by (simp_all add: import_eval zoning_eval facade_zone_def)

text \<open>
  C4. In every zone, outer walls and windows are aggregated per group of
  (orientation, construction), the members of a group being the zone's records with
  that orientation and construction: a group whose orientation is a string is skipped
  with a diagnostic, a group whose summed area is not positive is skipped, and every
  other group yields exactly one element, whose area is the sum of the members' areas
  (not halved; a blank area adds nothing).
\<close>

theorem C4_outer_walls_and_windows:
  "(\<forall>k\<in>set (group_keys outer_wall_key pair_rank zone).
      (is_str (fst k) \<longrightarrow>
         (\<exists>z l. OuterWallOrientationNotNumeric z (fst k) l \<in> set (snd (build_zone name zone))))
      \<and> filter (\<lambda>e. el_kind e = OuterWall
                    \<and> orientation e = Some (fst k) \<and> construction e = Some (snd k))
           (tz_elements (fst (build_zone name zone)))
         = (if is_str (fst k) then []
            else if sum_list (map (\<lambda>r. case OuterWallArea (base r) of None \<Rightarrow> 0 | Some a \<Rightarrow> a)
                      (filter (\<lambda>r. OuterWallOrientation (base r) = fst k
                                   \<and> OuterWallConstruction (base r) = Some (snd k)) zone)) \<le> 0
            then []
            else [\<lparr>el_kind = OuterWall,
                    area = sum_list (map (\<lambda>r. case OuterWallArea (base r) of None \<Rightarrow> 0 | Some a \<Rightarrow> a)
                      (filter (\<lambda>r. OuterWallOrientation (base r) = fst k
                                   \<and> OuterWallConstruction (base r) = Some (snd k)) zone)),
                    tilt = Some 90, orientation = Some (fst k), construction = Some (snd k)\<rparr>]))
   \<and> (\<forall>k\<in>set (group_keys window_key pair_rank zone).
      (is_str (fst k) \<longrightarrow>
         (\<exists>z l. WindowOrientationNotNumeric z (fst k) l \<in> set (snd (build_zone name zone))))
      \<and> filter (\<lambda>e. el_kind e = Window
                    \<and> orientation e = Some (fst k) \<and> construction e = Some (snd k))
           (tz_elements (fst (build_zone name zone)))
         = (if is_str (fst k) then []
            else if sum_list (map (\<lambda>r. case WindowArea (base r) of None \<Rightarrow> 0 | Some a \<Rightarrow> a)
                      (filter (\<lambda>r. WindowOrientation (base r) = fst k
                                   \<and> WindowConstruction (base r) = Some (snd k)) zone)) \<le> 0
            then []
            else [\<lparr>el_kind = Window,
                    area = sum_list (map (\<lambda>r. case WindowArea (base r) of None \<Rightarrow> 0 | Some a \<Rightarrow> a)
                      (filter (\<lambda>r. WindowOrientation (base r) = fst k
                                   \<and> WindowConstruction (base r) = Some (snd k)) zone)),
                    tilt = Some 90, orientation = Some (fst k), construction = Some (snd k)\<rparr>]))"
proof (intro conjI ballI impI)
  fix k assume k: "k \<in> set (group_keys outer_wall_key pair_rank zone)"
  show "\<exists>z l. OuterWallOrientationNotNumeric z (fst k) l \<in> set (snd (build_zone name zone))"
    if "is_str (fst k)"
    using outer_walls_warning[OF k that] by (auto simp: build_zone_warnings)
  show "filter (\<lambda>e. el_kind e = OuterWall
                    \<and> orientation e = Some (fst k) \<and> construction e = Some (snd k))
           (tz_elements (fst (build_zone name zone)))
         = (if is_str (fst k) then []
            else if sum_list (map (\<lambda>r. case OuterWallArea (base r) of None \<Rightarrow> 0 | Some a \<Rightarrow> a)
                      (filter (\<lambda>r. OuterWallOrientation (base r) = fst k
                                   \<and> OuterWallConstruction (base r) = Some (snd k)) zone)) \<le> 0
            then []
            else [\<lparr>el_kind = OuterWall,
                    area = sum_list (map (\<lambda>r. case OuterWallArea (base r) of None \<Rightarrow> 0 | Some a \<Rightarrow> a)
                      (filter (\<lambda>r. OuterWallOrientation (base r) = fst k
                                   \<and> OuterWallConstruction (base r) = Some (snd k)) zone)),
                    tilt = Some 90, orientation = Some (fst k), construction = Some (snd k)\<rparr>])"
    unfolding build_zone_outer_walls outer_walls_filter[OF k] outer_wall_group_sum[OF k]
    by (simp add: not_le)
next
  fix k assume k: "k \<in> set (group_keys window_key pair_rank zone)"
  show "\<exists>z l. WindowOrientationNotNumeric z (fst k) l \<in> set (snd (build_zone name zone))"
    if "is_str (fst k)"
    using windows_warning[OF k that] by (auto simp: build_zone_warnings)
  show "filter (\<lambda>e. el_kind e = Window
                    \<and> orientation e = Some (fst k) \<and> construction e = Some (snd k))
           (tz_elements (fst (build_zone name zone)))
         = (if is_str (fst k) then []
            else if sum_list (map (\<lambda>r. case WindowArea (base r) of None \<Rightarrow> 0 | Some a \<Rightarrow> a)
                      (filter (\<lambda>r. WindowOrientation (base r) = fst k
                                   \<and> WindowConstruction (base r) = Some (snd k)) zone)) \<le> 0
            then []
            else [\<lparr>el_kind = Window,
                    area = sum_list (map (\<lambda>r. case WindowArea (base r) of None \<Rightarrow> 0 | Some a \<Rightarrow> a)
                      (filter (\<lambda>r. WindowOrientation (base r) = fst k
                                   \<and> WindowConstruction (base r) = Some (snd k)) zone)),
                    tilt = Some 90, orientation = Some (fst k), construction = Some (snd k)\<rparr>])"
    unfolding build_zone_windows windows_filter[OF k] window_group_sum[OF k]
    by (simp add: not_le)
qed

theorem C4_outer_walls_and_windows_witness:
  "(Num 90, ''Brick'') \<in> set (group_keys outer_wall_key pair_rank facade_zone)
   \<and> (Str ''N'', ''Brick'') \<in> set (group_keys outer_wall_key pair_rank facade_zone)
   \<and> (Num 90, ''Glass'') \<in> set (group_keys window_key pair_rank facade_zone)
   \<and> (Num 180, ''Glass'') \<in> set (group_keys window_key pair_rank facade_zone)
   \<and> (Num 270, ''Glass'') \<in> set (group_keys window_key pair_rank facade_zone)
   \<and> filter (\<lambda>e. el_kind e = OuterWall \<and> orientation e = Some (Num 90)
                 \<and> construction e = Some ''Brick'')
        (tz_elements (fst (build_zone ''Z'' facade_zone)))
      = [\<lparr>el_kind = OuterWall, area = 17, tilt = Some 90, orientation = Some (Num 90),
           construction = Some ''Brick''\<rparr>]
   \<and> (\<exists>z l. OuterWallOrientationNotNumeric z (Str ''N'') l
               \<in> set (snd (build_zone ''Z'' facade_zone)))
   \<and> filter (\<lambda>e. el_kind e = OuterWall \<and> orientation e = Some (Str ''N'')
                 \<and> construction e = Some ''Brick'')
        (tz_elements (fst (build_zone ''Z'' facade_zone))) = []
   \<and> filter (\<lambda>e. el_kind e = Window \<and> orientation e = Some (Num 90)
                 \<and> construction e = Some ''Glass'')
        (tz_elements (fst (build_zone ''Z'' facade_zone)))
      = [\<lparr>el_kind = Window, area = 5, tilt = Some 90, orientation = Some (Num 90),
           construction = Some ''Glass''\<rparr>]
   \<and> filter (\<lambda>e. el_kind e = Window \<and> orientation e = Some (Num 180)
                 \<and> construction e = Some ''Glass'')
        (tz_elements (fst (build_zone ''Z'' facade_zone))) = []
   \<and> filter (\<lambda>e. el_kind e = Window \<and> orientation e = Some (Num 270)
                 \<and> construction e = Some ''Glass'')
        (tz_elements (fst (build_zone ''Z'' facade_zone))) = []
   \<and> build_zone ''Z'' facade_zone =
       (\<lparr>tz_name = ''Z'', tz_area = 0, tz_volume = 0,
         tz_elements =
           [\<lparr>el_kind = OuterWall, area = 17, tilt = Some 90,
              orientation = Some (Num 90), construction = Some ''Brick''\<rparr>,
            \<lparr>el_kind = Window, area = 5, tilt = Some 90,
              orientation = Some (Num 90), construction = Some ''Glass''\<rparr>]\<rparr>,
        [OuterWallOrientationNotNumeric ''Meeting, Conference, seminar'' (Str ''N'') [5]])"
proof -
  have k1: "(Num 90, ''Brick'') \<in> set (group_keys outer_wall_key pair_rank facade_zone)"
    and k2: "(Str ''N'', ''Brick'') \<in> set (group_keys outer_wall_key pair_rank facade_zone)"
    and k3: "(Num 90, ''Glass'') \<in> set (group_keys window_key pair_rank facade_zone)"
    and k4: "(Num 180, ''Glass'') \<in> set (group_keys window_key pair_rank facade_zone)"
    and k5: "(Num 270, ''Glass'') \<in> set (group_keys window_key pair_rank facade_zone)"
    by (simp_all add: facade_zone_keys)
  have s1: "sum_list (map (\<lambda>r. case OuterWallArea (base r) of None \<Rightarrow> 0 | Some a \<Rightarrow> a)
              (filter (\<lambda>r. OuterWallOrientation (base r) = Num 90
                           \<and> OuterWallConstruction (base r) = Some ''Brick'') facade_zone)) = 17"
    by (simp add: facade_zone_def blank_row_def)
  have s3: "sum_list (map (\<lambda>r. case WindowArea (base r) of None \<Rightarrow> 0 | Some a \<Rightarrow> a)
              (filter (\<lambda>r. WindowOrientation (base r) = Num 90
                           \<and> WindowConstruction (base r) = Some ''Glass'') facade_zone)) = 5"
    by (simp add: facade_zone_def blank_row_def)
  have s4: "sum_list (map (\<lambda>r. case WindowArea (base r) of None \<Rightarrow> 0 | Some a \<Rightarrow> a)
              (filter (\<lambda>r. WindowOrientation (base r) = Num 180
                           \<and> WindowConstruction (base r) = Some ''Glass'') facade_zone)) = 0"
    by (simp add: facade_zone_def blank_row_def)
  have s5: "sum_list (map (\<lambda>r. case WindowArea (base r) of None \<Rightarrow> 0 | Some a \<Rightarrow> a)
              (filter (\<lambda>r. WindowOrientation (base r) = Num 270
                           \<and> WindowConstruction (base r) = Some ''Glass'') facade_zone)) = 0"
    by (simp add: facade_zone_def blank_row_def)
  have run: "build_zone ''Z'' facade_zone =
       (\<lparr>tz_name = ''Z'', tz_area = 0, tz_volume = 0,
         tz_elements =
           [\<lparr>el_kind = OuterWall, area = 17, tilt = Some 90,
              orientation = Some (Num 90), construction = Some ''Brick''\<rparr>,
            \<lparr>el_kind = Window, area = 5, tilt = Some 90,
              orientation = Some (Num 90), construction = Some ''Glass''\<rparr>]\<rparr>,
        [OuterWallOrientationNotNumeric ''Meeting, Conference, seminar'' (Str ''N'') [5]])"
    by (simp add: import_eval zoning_eval facade_zone_def)
  note main = C4_outer_walls_and_windows[of facade_zone "''Z''"]
  from main k1 have a: "filter (\<lambda>e. el_kind e = OuterWall \<and> orientation e = Some (Num 90)
                 \<and> construction e = Some ''Brick'')
        (tz_elements (fst (build_zone ''Z'' facade_zone)))
      = [\<lparr>el_kind = OuterWall, area = 17, tilt = Some 90, orientation = Some (Num 90),
           construction = Some ''Brick''\<rparr>]"
    by (force simp: s1 is_str_def)
  from main k2 have b: "(\<exists>z l. OuterWallOrientationNotNumeric z (Str ''N'') l
               \<in> set (snd (build_zone ''Z'' facade_zone)))
     \<and> filter (\<lambda>e. el_kind e = OuterWall \<and> orientation e = Some (Str ''N'')
                 \<and> construction e = Some ''Brick'')
        (tz_elements (fst (build_zone ''Z'' facade_zone))) = []"
    by (force simp: is_str_def)
  from main k3 have c: "filter (\<lambda>e. el_kind e = Window \<and> orientation e = Some (Num 90)
                 \<and> construction e = Some ''Glass'')
        (tz_elements (fst (build_zone ''Z'' facade_zone)))
      = [\<lparr>el_kind = Window, area = 5, tilt = Some 90, orientation = Some (Num 90),
           construction = Some ''Glass''\<rparr>]"
    by (force simp: s3 is_str_def)
  from main k4 have d: "filter (\<lambda>e. el_kind e = Window \<and> orientation e = Some (Num 180)
                 \<and> construction e = Some ''Glass'')
        (tz_elements (fst (build_zone ''Z'' facade_zone))) = []"
    by (force simp: s4 is_str_def)
  from main k5 have e: "filter (\<lambda>e. el_kind e = Window \<and> orientation e = Some (Num 270)
                 \<and> construction e = Some ''Glass'')
        (tz_elements (fst (build_zone ''Z'' facade_zone))) = []"
    by (force simp: s5 is_str_def)
  from k1 k2 k3 k4 k5 a b c d e run show ?thesis by (intro conjI) simp_all
qed

subsection \<open>Floor and ceiling groups with a wrong flag or no area\<close>

lemma floors_group_warning:
  assumes "(k, g) \<in> set (groupby floor_key pair_rank zone)"
  shows "set (snd (floor_group g)) \<subseteq> set (snd (build_zone name zone))"
  using assms unfolding build_zone_warnings floors_def for_groups_warnings by force

lemma ceilings_group_warning:
  assumes "(k, g) \<in> set (groupby ceiling_key pair_rank zone)"
  shows "set (snd (ceiling_group g)) \<subseteq> set (snd (build_zone name zone))"
  using assms unfolding build_zone_warnings ceilings_def for_groups_warnings by force

text \<open>
  C5. For every group of (IsGroundFloor, FloorConstruction), resp. (IsRooftop,
  CeilingConstruction), of a zone: if its summed net area is not zero and its flag is
  neither 0 nor 1, a diagnostic is emitted and the group yields no element; if its
  summed net area is zero, a diagnostic naming zone, flag and construction is emitted
  and the group yields no element.
\<close>

theorem C5_flag_and_zero_area:
  "(\<forall>(k, g)\<in>set (groupby floor_key pair_rank zone).
      (group_sum NetArea floor_key k zone \<noteq> 0 \<and> fst k \<noteq> Num 0 \<and> fst k \<noteq> Num 1
         \<longrightarrow> floor_group g = ([], [IsGroundFloorNotZeroOrOne])
             \<and> IsGroundFloorNotZeroOrOne \<in> set (snd (build_zone name zone)))
      \<and> (group_sum NetArea floor_key k zone = 0
         \<longrightarrow> floor_group g = ([], [NoFloorNorGroundFloor (Zone (iloc0 g)) (fst k) (Some (snd k))])
             \<and> NoFloorNorGroundFloor (Zone (iloc0 g)) (fst k) (Some (snd k))
                 \<in> set (snd (build_zone name zone))))
   \<and> (\<forall>(k, g)\<in>set (groupby ceiling_key pair_rank zone).
      (group_sum NetArea ceiling_key k zone \<noteq> 0 \<and> fst k \<noteq> Num 0 \<and> fst k \<noteq> Num 1
         \<longrightarrow> ceiling_group g = ([], [IsRooftopNotZeroOrOne])
             \<and> IsRooftopNotZeroOrOne \<in> set (snd (build_zone name zone)))
      \<and> (group_sum NetArea ceiling_key k zone = 0
         \<longrightarrow> ceiling_group g = ([], [NoCeilingNorRooftop (Zone (iloc0 g)) (fst k) (Some (snd k))])
             \<and> NoCeilingNorRooftop (Zone (iloc0 g)) (fst k) (Some (snd k))
                 \<in> set (snd (build_zone name zone))))"
proof (intro conjI ballI)
  fix kg assume m: "kg \<in> set (groupby floor_key pair_rank zone)"
  obtain k g where kg: "kg = (k, g)" by (cases kg)
  from m kg have g: "(k, g) \<in> set (groupby floor_key pair_rank zone)" by simp
  have "(group_sum NetArea floor_key k zone \<noteq> 0 \<and> fst k \<noteq> Num 0 \<and> fst k \<noteq> Num 1
         \<longrightarrow> floor_group g = ([], [IsGroundFloorNotZeroOrOne])
             \<and> IsGroundFloorNotZeroOrOne \<in> set (snd (build_zone name zone)))
      \<and> (group_sum NetArea floor_key k zone = 0
         \<longrightarrow> floor_group g = ([], [NoFloorNorGroundFloor (Zone (iloc0 g)) (fst k) (Some (snd k))])
             \<and> NoFloorNorGroundFloor (Zone (iloc0 g)) (fst k) (Some (snd k))
                 \<in> set (snd (build_zone name zone)))"
    using floors_group_warning[OF g, of name]
    unfolding floor_group_cases[OF g]
    by (auto simp: group_sum_def group_rows_def)
  then show "case kg of (k, g) \<Rightarrow>
      (group_sum NetArea floor_key k zone \<noteq> 0 \<and> fst k \<noteq> Num 0 \<and> fst k \<noteq> Num 1
         \<longrightarrow> floor_group g = ([], [IsGroundFloorNotZeroOrOne])
             \<and> IsGroundFloorNotZeroOrOne \<in> set (snd (build_zone name zone)))
      \<and> (group_sum NetArea floor_key k zone = 0
         \<longrightarrow> floor_group g = ([], [NoFloorNorGroundFloor (Zone (iloc0 g)) (fst k) (Some (snd k))])
             \<and> NoFloorNorGroundFloor (Zone (iloc0 g)) (fst k) (Some (snd k))
                 \<in> set (snd (build_zone name zone)))"
    by (simp add: kg)
next
  fix kg assume m: "kg \<in> set (groupby ceiling_key pair_rank zone)"
  obtain k g where kg: "kg = (k, g)" by (cases kg)
  from m kg have g: "(k, g) \<in> set (groupby ceiling_key pair_rank zone)" by simp
  have "(group_sum NetArea ceiling_key k zone \<noteq> 0 \<and> fst k \<noteq> Num 0 \<and> fst k \<noteq> Num 1
         \<longrightarrow> ceiling_group g = ([], [IsRooftopNotZeroOrOne])
             \<and> IsRooftopNotZeroOrOne \<in> set (snd (build_zone name zone)))
      \<and> (group_sum NetArea ceiling_key k zone = 0
         \<longrightarrow> ceiling_group g = ([], [NoCeilingNorRooftop (Zone (iloc0 g)) (fst k) (Some (snd k))])
             \<and> NoCeilingNorRooftop (Zone (iloc0 g)) (fst k) (Some (snd k))
                 \<in> set (snd (build_zone name zone)))"
    using ceilings_group_warning[OF g, of name]
    unfolding ceiling_group_cases[OF g]
    by (auto simp: group_sum_def group_rows_def)
  then show "case kg of (k, g) \<Rightarrow>
      (group_sum NetArea ceiling_key k zone \<noteq> 0 \<and> fst k \<noteq> Num 0 \<and> fst k \<noteq> Num 1
         \<longrightarrow> ceiling_group g = ([], [IsRooftopNotZeroOrOne])
             \<and> IsRooftopNotZeroOrOne \<in> set (snd (build_zone name zone)))
      \<and> (group_sum NetArea ceiling_key k zone = 0
         \<longrightarrow> ceiling_group g = ([], [NoCeilingNorRooftop (Zone (iloc0 g)) (fst k) (Some (snd k))])
             \<and> NoCeilingNorRooftop (Zone (iloc0 g)) (fst k) (Some (snd k))
                 \<in> set (snd (build_zone name zone)))"
    by (simp add: kg)
qed

theorem C5_flag_and_zero_area_witness:
  "(\<exists>g. ((Num 2, ''Slab''), g) \<in> set (groupby floor_key pair_rank sample_zone)
        \<and> group_sum NetArea floor_key (Num 2, ''Slab'') sample_zone = 6
        \<and> floor_group g = ([], [IsGroundFloorNotZeroOrOne])
        \<and> IsGroundFloorNotZeroOrOne \<in> set (snd (build_zone ''Z'' sample_zone)))
   \<and> (\<exists>g. ((Num 1, ''Slab''), g) \<in> set (groupby floor_key pair_rank no_area_zone)
        \<and> group_sum NetArea floor_key (Num 1, ''Slab'') no_area_zone = 0
        \<and> floor_group g = ([], [NoFloorNorGroundFloor (Zone (iloc0 g)) (Num 1) (Some ''Slab'')])
        \<and> NoFloorNorGroundFloor (Zone (iloc0 g)) (Num 1) (Some ''Slab'')
             \<in> set (snd (build_zone ''Z'' no_area_zone)))
   \<and> (\<exists>g. ((Num 0, ''Deck''), g) \<in> set (groupby ceiling_key pair_rank no_area_zone)
        \<and> group_sum NetArea ceiling_key (Num 0, ''Deck'') no_area_zone = 0
        \<and> ceiling_group g = ([], [NoCeilingNorRooftop (Zone (iloc0 g)) (Num 0) (Some ''Deck'')])
        \<and> NoCeilingNorRooftop (Zone (iloc0 g)) (Num 0) (Some ''Deck'')
             \<in> set (snd (build_zone ''Z'' no_area_zone)))"
proof -
  have "(Num 2, ''Slab'') \<in> set (group_keys floor_key pair_rank sample_zone)"
    by (simp add: sample_zone_keys)
  from groupby_member[OF this] obtain g1 where
    g1: "((Num 2, ''Slab''), g1) \<in> set (groupby floor_key pair_rank sample_zone)" by blast
  have s1: "group_sum NetArea floor_key (Num 2, ''Slab'') sample_zone = 6"
    by (simp add: sample_zone_sums)
  have "(Num 1, ''Slab'') \<in> set (group_keys floor_key pair_rank no_area_zone)"
    by (simp add: import_eval zoning_eval no_area_zone_def)
  from groupby_member[OF this] obtain g2 where
    g2: "((Num 1, ''Slab''), g2) \<in> set (groupby floor_key pair_rank no_area_zone)" by blast
  have s2: "group_sum NetArea floor_key (Num 1, ''Slab'') no_area_zone = 0"
    by (simp add: group_sum_def group_rows_def import_eval zoning_eval no_area_zone_def)
  have "(Num 0, ''Deck'') \<in> set (group_keys ceiling_key pair_rank no_area_zone)"
    by (simp add: import_eval zoning_eval no_area_zone_def)
  from groupby_member[OF this] obtain g3 where
    g3: "((Num 0, ''Deck''), g3) \<in> set (groupby ceiling_key pair_rank no_area_zone)" by blast
  have s3: "group_sum NetArea ceiling_key (Num 0, ''Deck'') no_area_zone = 0"
    by (simp add: group_sum_def group_rows_def import_eval zoning_eval no_area_zone_def)
  from C5_flag_and_zero_area[of sample_zone "''Z''"] g1 s1
  have a: "floor_group g1 = ([], [IsGroundFloorNotZeroOrOne])
      \<and> IsGroundFloorNotZeroOrOne \<in> set (snd (build_zone ''Z'' sample_zone))"
    by fastforce
  from C5_flag_and_zero_area[of no_area_zone "''Z''"] g2 s2
  have b: "floor_group g2 = ([], [NoFloorNorGroundFloor (Zone (iloc0 g2)) (Num 1) (Some ''Slab'')])
      \<and> NoFloorNorGroundFloor (Zone (iloc0 g2)) (Num 1) (Some ''Slab'')
           \<in> set (snd (build_zone ''Z'' no_area_zone))"
    by fastforce
  from C5_flag_and_zero_area[of no_area_zone "''Z''"] g3 s3
  have c: "ceiling_group g3 = ([], [NoCeilingNorRooftop (Zone (iloc0 g3)) (Num 0) (Some ''Deck'')])
      \<and> NoCeilingNorRooftop (Zone (iloc0 g3)) (Num 0) (Some ''Deck'')
           \<in> set (snd (build_zone ''Z'' no_area_zone))"
    by fastforce
  from g1 s1 a g2 s2 b g3 s3 c show ?thesis by blast
qed

subsection \<open>Cleaning the imported cells\<close>

lemma strip_decomp:
  "s = takeWhile py_whitespace s @ strip s
         @ rev (takeWhile py_whitespace (rev (dropWhile py_whitespace s)))"
proof -
  let ?d = "dropWhile py_whitespace s"
  have "rev (takeWhile py_whitespace (rev ?d) @ dropWhile py_whitespace (rev ?d)) = ?d"
    by (simp only: takeWhile_dropWhile_id rev_rev_ident)
  then have "?d = strip s @ rev (takeWhile py_whitespace (rev ?d))"
    by (simp only: rev_append strip_def)
  moreover have "s = takeWhile py_whitespace s @ ?d" by simp
  ultimately show ?thesis by metis
qed

lemma strip_ends:
  assumes "strip s \<noteq> []"
  shows "\<not> py_whitespace (hd (strip s))" and "\<not> py_whitespace (last (strip s))"
proof -
  let ?d = "dropWhile py_whitespace s"
  let ?e = "dropWhile py_whitespace (rev ?d)"
  from assms have e: "?e \<noteq> []" by (simp add: strip_def)
  then have "\<not> py_whitespace (hd ?e)" by (rule hd_dropWhile)
  moreover have "last (strip s) = hd ?e"
    using e by (simp add: strip_def last_rev)
  ultimately show "\<not> py_whitespace (last (strip s))" by simp
  have d: "?d = strip s @ rev (takeWhile py_whitespace (rev ?d))"
    using strip_decomp[of s] by (metis append_eq_append_conv takeWhile_dropWhile_id)
  with assms have "?d \<noteq> []" by (metis Nil_is_append_conv)
  then have "\<not> py_whitespace (hd ?d)" by (rule hd_dropWhile)
  moreover from d assms have "hd ?d = hd (strip s)" by (metis hd_append2)
  ultimately show "\<not> py_whitespace (hd (strip s))" by simp
qed

lemma strip_padded:
  assumes "\<forall>c\<in>set pre. py_whitespace c" and "\<forall>c\<in>set post. py_whitespace c"
    and "t = [] \<or> (\<not> py_whitespace (hd t) \<and> \<not> py_whitespace (last t))"
  shows "strip (pre @ t @ post) = t"
proof (cases "t = []")
  case True
  with assms(1,2) have "\<forall>c\<in>set (pre @ t @ post). py_whitespace c"
    by auto
  then have d0: "dropWhile py_whitespace (pre @ t @ post) = []"
    by (rule dropWhile_eq_Nil_conv[THEN iffD2])
  show ?thesis unfolding strip_def d0 using True by simp
next
  case False
  with assms(3) have h: "\<not> py_whitespace (hd t)" and l: "\<not> py_whitespace (last t)" by auto
  from False obtain a t' where t: "t = a # t'" by (cases t) auto
  have "dropWhile py_whitespace (pre @ t @ post) = dropWhile py_whitespace (t @ post)"
    using assms(1) by (simp add: dropWhile_append2)
  also have "\<dots> = t @ post" using h t by simp
  finally have d: "dropWhile py_whitespace (pre @ t @ post) = t @ post" .
  from False obtain b u where rt: "rev t = b # u" by (cases "rev t") auto
  with False have "b = last t" by (metis hd_rev list.sel(1))
  with l have nb: "\<not> py_whitespace b" by simp
  have "dropWhile py_whitespace (rev post @ rev t) = dropWhile py_whitespace (rev t)"
    using assms(2) by (intro dropWhile_append2) simp
  then have "dropWhile py_whitespace (rev (t @ post)) = dropWhile py_whitespace (rev t)"
    by simp
  also have "\<dots> = rev t" using rt nb by simp
  finally show ?thesis by (simp add: strip_def d)
qed

lemma na_strings_ends:
  assumes "t \<in> set na_strings"
  shows "t = [] \<or> (\<not> py_whitespace (hd t) \<and> \<not> py_whitespace (last t))"
  using assms by (auto simp: na_strings_def py_whitespace_def)

lemma clean_cell_Str:
  "clean_cell (Str s) = (if strip s \<in> set na_strings then NaN else Str (strip s))"
  by (simp add: clean_cell_def strip_cell_def replace_cell_def)

lemma zip_upt_nth:
  "zip [0..<length xs] xs = map (\<lambda>k. (k, xs ! k)) [0..<length xs]"
  by (rule nth_equalityI) simp_all

lemma sheet_rows_nth:
  "sheet_rows sheet =
     map (\<lambda>k. \<lparr>row_label = Num (real k + 2), cells = sheet ! k\<rparr>) [0..<length sheet]"
  by (simp add: sheet_rows_def zip_upt_nth)

text \<open>
  C10 (as the code has it). Normalisation strips leading and trailing whitespace from
  every string cell and turns exactly the tokens of the script's list (the empty
  string, N/a, n/A, NAN, nan, na, Na, nA, NA), however padded with whitespace, into the
  one missing-value marker; every other cell, any other spelling of these words
  included, passes unchanged apart from the stripping. With a list of sheets, row \<open>k\<close>
  of each sheet (counted from 0 below the header) carries the number \<open>k + 2\<close>, the
  row's number in its sheet, in the column \<open>index\<close>; with a single sheet no number is
  added and the label is the sheet's own first column.
\<close>

theorem C10_import_data_normalisation:
  "(\<forall>s. clean_cell (Str s) = (if strip s \<in> set na_strings then NaN else Str (strip s)))
   \<and> (\<forall>x. clean_cell (Num x) = Num x) \<and> clean_cell NaN = NaN
   \<and> (\<forall>s. \<exists>pre post. s = pre @ strip s @ post
          \<and> (\<forall>c\<in>set pre. py_whitespace c) \<and> (\<forall>c\<in>set post. py_whitespace c))
   \<and> (\<forall>s. strip s \<noteq> [] \<longrightarrow>
          \<not> py_whitespace (hd (strip s)) \<and> \<not> py_whitespace (last (strip s)))
   \<and> (\<forall>t pre post. t \<in> set na_strings
          \<and> (\<forall>c\<in>set pre. py_whitespace c) \<and> (\<forall>c\<in>set post. py_whitespace c)
          \<longrightarrow> clean_cell (Str (pre @ t @ post)) = NaN)
   \<and> import_data (SheetList sheets) =
       concat (map (\<lambda>sheet. map (\<lambda>k. \<lparr>row_label = Num (real k + 2),
                                         cells = map clean_cell (sheet ! k)\<rparr>)
                               [0..<length sheet]) sheets)
   \<and> import_data (SingleSheet rows) =
       map (\<lambda>(i, r). \<lparr>row_label = i, cells = map clean_cell r\<rparr>) rows"
proof (intro conjI allI impI)
  show "clean_cell (Str s) = (if strip s \<in> set na_strings then NaN else Str (strip s))" for s
    by (rule clean_cell_Str)
  show "clean_cell (Num x) = Num x" for x
    by (simp add: clean_cell_def strip_cell_def replace_cell_def)
  show "clean_cell NaN = NaN"
    by (simp add: clean_cell_def strip_cell_def replace_cell_def)
  show "\<exists>pre post. s = pre @ strip s @ post
          \<and> (\<forall>c\<in>set pre. py_whitespace c) \<and> (\<forall>c\<in>set post. py_whitespace c)" for s
  proof (intro exI conjI)
    show "s = takeWhile py_whitespace s @ strip s
         @ rev (takeWhile py_whitespace (rev (dropWhile py_whitespace s)))"
      by (rule strip_decomp)
    show "\<forall>c\<in>set (takeWhile py_whitespace s). py_whitespace c"
      by (auto dest: set_takeWhileD)
    show "\<forall>c\<in>set (rev (takeWhile py_whitespace (rev (dropWhile py_whitespace s)))). py_whitespace c"
      by (auto dest: set_takeWhileD)
  qed
  show "\<not> py_whitespace (hd (strip s))" if "strip s \<noteq> []" for s
    using strip_ends(1)[OF that] .
  show "\<not> py_whitespace (last (strip s))" if "strip s \<noteq> []" for s
    using strip_ends(2)[OF that] .
  show "clean_cell (Str (pre @ t @ post)) = NaN"
    if "t \<in> set na_strings \<and> (\<forall>c\<in>set pre. py_whitespace c) \<and> (\<forall>c\<in>set post. py_whitespace c)"
    for t pre post
  proof -
    from that have "strip (pre @ t @ post) = t"
      by (intro strip_padded na_strings_ends) auto
    with that show ?thesis by (simp add: clean_cell_Str)
  qed
  show "import_data (SheetList sheets) =
       concat (map (\<lambda>sheet. map (\<lambda>k. \<lparr>row_label = Num (real k + 2),
                                         cells = map clean_cell (sheet ! k)\<rparr>)
                               [0..<length sheet]) sheets)"
    by (simp add: import_data_def sheet_rows_nth map_concat comp_def
          clean_cell_def strip_cell_def replace_cell_def)
  show "import_data (SingleSheet rows) =
       map (\<lambda>(i, r). \<lparr>row_label = i, cells = map clean_cell r\<rparr>) rows"
    by (simp add: import_data_def)
qed

theorem C10_import_data_normalisation_witness:
  "''n/A'' \<in> set na_strings
   \<and> list_all py_whitespace ''  '' \<and> list_all py_whitespace '' ''
   \<and> clean_cell (Str (''  '' @ ''n/A'' @ '' '')) = NaN
   \<and> strip '' Brick wall  '' = ''Brick wall''
   \<and> clean_cell (Str '' Brick wall  '') = Str ''Brick wall''
   \<and> import_data (SheetList [[[Str '' R1 '', Num 3, Str ''NA'']], [[Str [], NaN], [Str ''x '']]])
      = [\<lparr>row_label = Num 2, cells = [Str ''R1'', Num 3, NaN]\<rparr>,
         \<lparr>row_label = Num 2, cells = [NaN, NaN]\<rparr>,
         \<lparr>row_label = Num 3, cells = [Str ''x'']\<rparr>]
   \<and> import_data (SingleSheet [(Num 7, [Str '' R1 '', Str ''nan'']), (Str ''a'', [Num 1])])
      = [\<lparr>row_label = Num 7, cells = [Str ''R1'', NaN]\<rparr>,
         \<lparr>row_label = Str ''a'', cells = [Num 1]\<rparr>]"
proof -
  have t: "''n/A'' \<in> set na_strings" by (simp add: na_strings_def)
  have p: "(\<forall>c\<in>set ''  ''. py_whitespace c) \<and> (\<forall>c\<in>set '' ''. py_whitespace c)"
    by (simp add: py_whitespace_def)
  then have q: "list_all py_whitespace ''  '' \<and> list_all py_whitespace '' ''"
    by (simp add: list_all_iff)
  note main = C10_import_data_normalisation
    [of "[[[Str '' R1 '', Num 3, Str ''NA'']], [[Str [], NaN], [Str ''x '']]]"
        "[(Num 7, [Str '' R1 '', Str ''nan'']), (Str ''a'', [Num 1])]"]
  from main t p have a: "clean_cell (Str (''  '' @ ''n/A'' @ '' '')) = NaN"
    by blast
  have s: "strip '' Brick wall  '' = ''Brick wall''"
    by (simp add: strip_def py_whitespace_def)
  from main have "clean_cell (Str '' Brick wall  '')
      = (if strip '' Brick wall  '' \<in> set na_strings then NaN else Str (strip '' Brick wall  ''))"
    by blast
  with s have b: "clean_cell (Str '' Brick wall  '') = Str ''Brick wall''"
    by (simp add: na_strings_def)
  from main have "import_data (SheetList [[[Str '' R1 '', Num 3, Str ''NA'']], [[Str [], NaN], [Str ''x '']]])
      = concat (map (\<lambda>sheet. map (\<lambda>k. \<lparr>row_label = Num (real k + 2),
                                         cells = map clean_cell (sheet ! k)\<rparr>)
                               [0..<length sheet])
          [[[Str '' R1 '', Num 3, Str ''NA'']], [[Str [], NaN], [Str ''x '']]])"
    by blast
  also have "\<dots> = [\<lparr>row_label = Num 2, cells = [Str ''R1'', Num 3, NaN]\<rparr>,
         \<lparr>row_label = Num 2, cells = [NaN, NaN]\<rparr>,
         \<lparr>row_label = Num 3, cells = [Str ''x'']\<rparr>]"
    by (simp add: clean_cell_def strip_cell_def replace_cell_def strip_def py_whitespace_def
          na_strings_def upt_rec)
  finally have c: "import_data (SheetList [[[Str '' R1 '', Num 3, Str ''NA'']], [[Str [], NaN], [Str ''x '']]])
      = [\<lparr>row_label = Num 2, cells = [Str ''R1'', Num 3, NaN]\<rparr>,
         \<lparr>row_label = Num 2, cells = [NaN, NaN]\<rparr>,
         \<lparr>row_label = Num 3, cells = [Str ''x'']\<rparr>]" .
  from main have "import_data (SingleSheet [(Num 7, [Str '' R1 '', Str ''nan'']), (Str ''a'', [Num 1])])
      = map (\<lambda>(i, r). \<lparr>row_label = i, cells = map clean_cell r\<rparr>)
          [(Num 7, [Str '' R1 '', Str ''nan'']), (Str ''a'', [Num 1])]"
    by blast
  also have "\<dots> = [\<lparr>row_label = Num 7, cells = [Str ''R1'', NaN]\<rparr>,
         \<lparr>row_label = Str ''a'', cells = [Num 1]\<rparr>]"
    by (simp add: clean_cell_def strip_cell_def replace_cell_def strip_def py_whitespace_def
          na_strings_def)
  finally have d: "import_data (SingleSheet [(Num 7, [Str '' R1 '', Str ''nan'']), (Str ''a'', [Num 1])])
      = [\<lparr>row_label = Num 7, cells = [Str ''R1'', NaN]\<rparr>,
         \<lparr>row_label = Str ''a'', cells = [Num 1]\<rparr>]" .
  from t q a s b c d show ?thesis by blast
qed

text \<open>
  C10 as stated fails. The cells \<open>n/a\<close>, \<open>N/A\<close> and \<open>NaN\<close>, each padded with a blank so
  that the reader of the sheet leaves them as text, are stripped and then kept as
  strings: these spellings are not in the script's list. And a sheet read on its own
  has its header row consumed as well, yet its two rows keep the labels 0 and 1 of its
  first column; no 2 is added.
\<close>

theorem C10_counterexample:
  "import_data (SheetList [[[Str '' n/a'', Str ''N/A '', Str '' NaN '']]])
     = [\<lparr>row_label = Num 2, cells = [Str ''n/a'', Str ''N/A'', Str ''NaN'']\<rparr>]
   \<and> import_data (SingleSheet [(Num 0, [Str ''R1'']), (Num 1, [Str '' n/a''])])
     = [\<lparr>row_label = Num 0, cells = [Str ''R1'']\<rparr>,
        \<lparr>row_label = Num 1, cells = [Str ''n/a'']\<rparr>]"
  by (simp add: import_data_def sheet_rows_def clean_cell_def strip_cell_def replace_cell_def
        strip_def py_whitespace_def na_strings_def)

subsection \<open>Reordering the rows\<close>



























end
